theory Spec2Isabelle
  imports Complex_Main "HOL-Library.Word"
begin

section \<open>Data model\<close>

text \<open>
  The two source files are \<^verbatim>\<open>wrap/bytes.ts\<close> and the decimal counterpart
  (\<^verbatim>\<open>part_000\<close>). Both are lists of generator functions (cases) that take a target
  type, an input of type \<^verbatim>\<open>unknown\<close> and the wrap options, and either return a
  wrapped value, throw, or yield a request.

  Strings are sequences of 8-bit characters (Latin-1); the text of an encoding/text pair,
  whose conversion to UTF-8 is the point of its case, is a sequence of UTF-16 code units.
\<close>

subsection \<open>Exact decimals and numbers\<close>

text \<open>
  A \<^verbatim>\<open>Big\<close> of big.js is an exact base-10 decimal. \<open>Big m k\<close> stands for
  \<open>m / 10 ^ k\<close>. Values are immutable here, so the clone \<^verbatim>\<open>x.plus(0)\<close> is \<open>x\<close>.
\<close>

datatype big = Big (unscaled: int) (scale: nat)

definition big_lt :: "big \<Rightarrow> big \<Rightarrow> bool" where
  "big_lt a b = (unscaled a * 10 ^ scale b < unscaled b * 10 ^ scale a)"

definition big_gt :: "big \<Rightarrow> big \<Rightarrow> bool" where
  "big_gt a b = big_lt b a"

text \<open>\<^verbatim>\<open>Conversion.toBig\<close> on a BN or a bigint: the integer as a decimal.\<close>

definition toBig :: "int \<Rightarrow> big" where
  "toBig n = Big n 0"

text \<open>
  Modelled from the spec: \<^verbatim>\<open>Conversion.countDecimalPlaces\<close> is not among the sources;
  the spec calls it the decimal's number of fractional digits. Trailing zeros of the
  representation are not digits of the number.
\<close>

fun fractionalDigits :: "int \<Rightarrow> nat \<Rightarrow> nat" where
  "fractionalDigits m 0 = 0"
| "fractionalDigits m (Suc k) = (if m mod 10 = 0 then fractionalDigits (m div 10) k else Suc k)"

definition countDecimalPlaces :: "big \<Rightarrow> nat" where
  "countDecimalPlaces b = fractionalDigits (unscaled b) (scale b)"

text \<open>
  A JavaScript number is NaN, an infinity, or finite. A finite number is kept as the
  decimal that \<^verbatim>\<open>new Big(n)\<close> makes of it.
\<close>

datatype number = NaN | PosInfinity | NegInfinity | Finite big

definition isInteger :: "number \<Rightarrow> bool" where
  "isInteger n = (case n of Finite b \<Rightarrow> countDecimalPlaces b = 0 | _ \<Rightarrow> False)"

definition integerPart :: "big \<Rightarrow> int" where
  "integerPart b = unscaled b div 10 ^ scale b"

definition isSafeInteger :: "number \<Rightarrow> bool" where
  "isSafeInteger n = (case n of
      Finite b \<Rightarrow> countDecimalPlaces b = 0 \<and> \<bar>integerPart b\<bar> \<le> 2 ^ 53 - 1
    | _ \<Rightarrow> False)"

definition numberLess :: "number \<Rightarrow> int \<Rightarrow> bool" where
  "numberLess n i = (case n of
      NaN \<Rightarrow> False | PosInfinity \<Rightarrow> False | NegInfinity \<Rightarrow> True
    | Finite b \<Rightarrow> big_lt b (toBig i))"

definition numberGreaterEq :: "number \<Rightarrow> int \<Rightarrow> bool" where
  "numberGreaterEq n i = (case n of
      NaN \<Rightarrow> False | PosInfinity \<Rightarrow> True | NegInfinity \<Rightarrow> False
    | Finite b \<Rightarrow> \<not> big_lt b (toBig i))"

subsection \<open>Types and wrapped results of the format\<close>

datatype BytesType = BytesStatic (bytesLength: nat) | BytesDynamic

definition isStatic :: "BytesType \<Rightarrow> bool" where
  "isStatic t = (case t of BytesStatic _ \<Rightarrow> True | BytesDynamic \<Rightarrow> False)"

definition isDynamic :: "BytesType \<Rightarrow> bool" where
  "isDynamic t = (\<not> isStatic t)"

datatype TypeClass = Fixed | Ufixed

record DecimalType =
  typeClass :: TypeClass
  bits :: nat
  places :: nat

datatype IntegerClass = Int | Uint

datatype Type =
    BytesT BytesType
  | DecimalT DecimalType
  | IntegerT IntegerClass nat
  | EnumT string
  | OtherT string

datatype ResultKind = KValue | KError

text \<open>
  The results a caller can hand in as input: a value of some type, or an error result.
  An error of an enum result has a kind; the kind \<^verbatim>\<open>EnumOutOfRangeError\<close> carries the
  raw number.
\<close>

datatype ErrorInfo = EnumOutOfRangeError int | OtherError string

datatype WrappedResult =
    WBytesValue BytesType string
  | WDecimalValue DecimalType big
  | WIntegerValue IntegerClass nat int
  | WEnumValue string int
  | WOtherValue string
  | WErrorResult Type ErrorInfo

definition wtype :: "WrappedResult \<Rightarrow> Type" where
  "wtype w = (case w of
      WBytesValue t _ \<Rightarrow> BytesT t
    | WDecimalValue t _ \<Rightarrow> DecimalT t
    | WIntegerValue c b _ \<Rightarrow> IntegerT c b
    | WEnumValue n _ \<Rightarrow> EnumT n
    | WOtherValue n \<Rightarrow> OtherT n
    | WErrorResult t _ \<Rightarrow> t)"

definition wkind :: "WrappedResult \<Rightarrow> ResultKind" where
  "wkind w = (case w of WErrorResult _ _ \<Rightarrow> KError | _ \<Rightarrow> KValue)"

text \<open>The value a case returns: \<^verbatim>\<open>{ type, kind: "value", value: { asHex } }\<close> for
  bytes, with \<^verbatim>\<open>asBig\<close> for decimals.\<close>

record ('t, 'p) Value =
  type :: 't
  kind :: ResultKind
  payload :: 'p

type_synonym BytesValue = "(BytesType, string) Value"
type_synonym DecimalValue = "(DecimalType, big) Value"

subsection \<open>Inputs\<close>

text \<open>
  The input is \<^verbatim>\<open>unknown\<close> in the source and each case probes its shape with a
  recogniser of \<^verbatim>\<open>Utils\<close> (\<^verbatim>\<open>isBoxedString\<close>, \<^verbatim>\<open>isUint8ArrayLike\<close>,
  \<^verbatim>\<open>isEncodingTextInput\<close>, \<^verbatim>\<open>isTypeValueInput\<close>, \<^verbatim>\<open>isWrappedResult\<close>, ...).
  Here the shape is the constructor, and an input has one shape.
\<close>

datatype Element = NonNumber | Num number

datatype Uint8ArrayLike = Uint8Array "8 word list" | ArrayLike number "Element list"

datatype Input =
    IString string
  | IBoxedString string
  | INumber number
  | IBoxedNumber number
  | IBigint int
  | IBN int
  | IBig big
  | IUint8ArrayLike Uint8ArrayLike
  | IEncodingText string "16 word list"
  | ITypeValue string Input
  | IWrapped WrappedResult
  | IOther

record WrapOptions =
  name :: string
  loose :: bool

subsection \<open>Errors, requests and responses\<close>

text \<open>
  The reason of an error: a string literal of the source, or a call of a function of
  \<^verbatim>\<open>Messages\<close>, kept with its arguments.
\<close>

datatype Reason =
    Literal string
  | notABytestringMessage string
  | wrappedTypeMessage Type
  | errorResultMessage
  | specifiedTypeMessage string
  | invalidUtf16Message
  | overlongMessage nat rat
  | nonNumericMessage
  | tooPreciseMessage nat nat
  | outOfRangeMessage
  | unrecognizedNumberMessage DecimalType

datatype WrapRequest = DecimalWrapRequest Input

datatype WrapResponse =
    DecimalWrapResponse "big option" "string option" "bool option"
  | OtherWrapResponse

text \<open>\<^verbatim>\<open>TypeMismatchError(dataType, input, name, specificity, reason)\<close> and
  \<^verbatim>\<open>BadResponseTypeError(request, response)\<close>. \<open>NoCasesError\<close> is not an error of
  the source: it marks a run of the engine over an empty list of cases, which no list of
  the source is.\<close>

datatype 't error =
    TypeMismatchError 't Input string nat Reason
  | BadResponseTypeError WrapRequest WrapResponse
  | NoCasesError

definition isMismatch :: "'t error \<Rightarrow> bool" where
  "isMismatch e = (case e of TypeMismatchError _ _ _ _ _ \<Rightarrow> True | _ \<Rightarrow> False)"

definition specificity :: "'t error \<Rightarrow> nat" where
  "specificity e = (case e of TypeMismatchError _ _ _ s _ \<Rightarrow> s | _ \<Rightarrow> 0)"

definition reasonOf :: "'t error \<Rightarrow> Reason option" where
  "reasonOf e = (case e of TypeMismatchError _ _ _ _ r \<Rightarrow> Some r | _ \<Rightarrow> None)"

section \<open>Generators and the dispatch engine\<close>

text \<open>
  A generator either returns, throws, or yields a request and goes on with the response
  it is resumed with.
\<close>

datatype ('t, 'a) gen =
    Return 'a
  | Throw "'t error"
  | Yield WrapRequest "WrapResponse \<Rightarrow> ('t, 'a) gen"

type_synonym ('t, 'a) Case = "'t \<Rightarrow> Input \<Rightarrow> WrapOptions \<Rightarrow> ('t, 'a) gen"

text \<open>The driver: answers every request with the resolver until the generator is done.\<close>

primrec drive :: "(WrapRequest \<Rightarrow> WrapResponse) \<Rightarrow> ('t, 'a) gen \<Rightarrow> 't error + 'a" where
  "drive resolver (Return v) = Inr v"
| "drive resolver (Throw e) = Inl e"
| "drive resolver (Yield request k) = drive resolver (k (resolver request))"

text \<open>The requests a generator makes under a resolver, in order.\<close>

primrec requests :: "(WrapRequest \<Rightarrow> WrapResponse) \<Rightarrow> ('t, 'a) gen \<Rightarrow> WrapRequest list" where
  "requests resolver (Return v) = []"
| "requests resolver (Throw e) = []"
| "requests resolver (Yield request k) = request # requests resolver (k (resolver request))"

text \<open>
  Modelled from the spec: \<^verbatim>\<open>wrapWithCases\<close> of \<^verbatim>\<open>./dispatch\<close> is imported by both
  sources and is not among them. The spec (4.2): iterate the case list in order; a case
  that completes with a value ends the run; a case that suspends suspends the engine,
  which resumes that case with the response; a case that fails with a Mismatch has its
  error recorded and the next case is tried; when the list is exhausted, the error with
  maximum specificity among the recorded ones is raised, the earliest of them on a tie.
  A protocol violation is never aggregated and is propagated at once (7).
\<close>

fun selectError :: "'t error list \<Rightarrow> 't error option" where
  "selectError [] = None"
| "selectError (e # es) =
     (case selectError es of
        None \<Rightarrow> Some e
      | Some later \<Rightarrow> if specificity e < specificity later then Some later else Some e)"

primrec tryCase :: "('t, 'a) gen \<Rightarrow> ('t error \<Rightarrow> ('t, 'a) gen) \<Rightarrow> ('t, 'a) gen" where
  "tryCase (Return v) onMismatch = Return v"
| "tryCase (Throw e) onMismatch = (if isMismatch e then onMismatch e else Throw e)"
| "tryCase (Yield request k) onMismatch = Yield request (\<lambda>response. tryCase (k response) onMismatch)"

primrec runCases ::
  "('t, 'a) Case list \<Rightarrow> 't \<Rightarrow> Input \<Rightarrow> WrapOptions \<Rightarrow> 't error list \<Rightarrow> ('t, 'a) gen" where
  "runCases [] dataType input wrapOptions recorded =
     (case selectError recorded of None \<Rightarrow> Throw NoCasesError | Some e \<Rightarrow> Throw e)"
| "runCases (caseFn # rest) dataType input wrapOptions recorded =
     tryCase (caseFn dataType input wrapOptions)
       (\<lambda>e. runCases rest dataType input wrapOptions (recorded @ [e]))"

definition wrapWithCases ::
  "'t \<Rightarrow> Input \<Rightarrow> WrapOptions \<Rightarrow> ('t, 'a) Case list \<Rightarrow> ('t, 'a) gen" where
  "wrapWithCases dataType input wrapOptions cases = runCases cases dataType input wrapOptions []"

section \<open>Strings\<close>

text \<open>The class \<^verbatim>\<open>\d\<close> of a pattern: the characters 0 to 9, codes 48 to 57.\<close>

definition isDigit :: "char \<Rightarrow> bool" where
  "isDigit c = (48 \<le> (of_char c :: nat) \<and> (of_char c :: nat) \<le> 57)"

definition isHexDigit :: "char \<Rightarrow> bool" where
  "isHexDigit c = (c \<in> set ''0123456789abcdefABCDEF'')"

text \<open>\<^verbatim>\<open>Number(digits)\<close> on a string of decimal digits, read exactly.\<close>

definition digitValue :: "char \<Rightarrow> nat" where
  "digitValue c = of_char c - 48"

definition digitsToNumber :: "string \<Rightarrow> nat" where
  "digitsToNumber ds = foldl (\<lambda>acc c. acc * 10 + digitValue c) 0 ds"

text \<open>A non-negative integer in a template literal.\<close>

function showNat :: "nat \<Rightarrow> string" where
  "showNat n = (if n < 10 then [char_of (48 + n)] else showNat (n div 10) @ [char_of (48 + n mod 10)])"
  by pat_completeness auto
termination
  by (relation "measure id") auto

text \<open>\<^verbatim>\<open>String.prototype.toLowerCase\<close> on Latin-1: the letters A-Z and the
  accented capitals U+00C0 to U+00DE (without the multiplication sign U+00D7).\<close>

definition toLowerChar :: "char \<Rightarrow> char" where
  "toLowerChar c =
     (let n = (of_char c :: nat)
      in if (65 \<le> n \<and> n \<le> 90) \<or> (192 \<le> n \<and> n \<le> 222 \<and> n \<noteq> 215) then char_of (n + 32) else c)"

definition toLowerCase :: "string \<Rightarrow> string" where
  "toLowerCase s = map toLowerChar s"

text \<open>\<^verbatim>\<open>s.padEnd(targetLength, fill)\<close>: the fill string is repeated and cut to
  the missing length.\<close>

definition padEnd :: "string \<Rightarrow> nat \<Rightarrow> string \<Rightarrow> string" where
  "padEnd s targetLength fill =
     (if targetLength \<le> length s \<or> fill = [] then s
      else s @ take (targetLength - length s) (concat (replicate (targetLength - length s) fill)))"

text \<open>\<^verbatim>\<open>String.prototype.trim\<close> on Latin-1: tab, line feed, vertical tab, form feed,
  carriage return, space and the no-break space are white space.\<close>

definition isWhiteSpace :: "char \<Rightarrow> bool" where
  "isWhiteSpace c = ((of_char c :: nat) \<in> {9, 10, 11, 12, 13, 32, 160})"

definition trim :: "string \<Rightarrow> string" where
  "trim s = rev (dropWhile isWhiteSpace (rev (dropWhile isWhiteSpace s)))"

text \<open>
  Modelled from the spec: \<^verbatim>\<open>Utils.isByteString\<close> is not among the sources; the spec
  calls it a strict "0x"-prefixed, even-length hex pattern.
\<close>

definition isByteString :: "string \<Rightarrow> bool" where
  "isByteString s = (take 2 s = ''0x'' \<and> even (length s) \<and> list_all isHexDigit (drop 2 s))"

text \<open>
  Modelled from the spec: \<^verbatim>\<open>Conversion.toHexString\<close> is not among the sources; it
  converts bytes to hex, two digits a byte after the prefix.
\<close>

definition hexDigit :: "nat \<Rightarrow> char" where
  "hexDigit n = ''0123456789abcdef'' ! (n mod 16)"

definition toHexString :: "8 word list \<Rightarrow> string" where
  "toHexString bs = ''0x'' @ concat (map (\<lambda>b. [hexDigit (unat b div 16), hexDigit (unat b mod 16)]) bs)"

text \<open>
  Modelled from the spec: \<^verbatim>\<open>Conversion.stringToBytes\<close> is not among the sources; it
  converts the text to UTF-8 bytes and throws on invalid text, which for UTF-16 is a
  surrogate without its partner. \<open>None\<close> is the throw.
\<close>

definition isHighSurrogate :: "nat \<Rightarrow> bool" where
  "isHighSurrogate u = (0xD800 \<le> u \<and> u \<le> 0xDBFF)"

definition isLowSurrogate :: "nat \<Rightarrow> bool" where
  "isLowSurrogate u = (0xDC00 \<le> u \<and> u \<le> 0xDFFF)"

fun codePoints :: "nat list \<Rightarrow> nat list option" where
  "codePoints [] = Some []"
| "codePoints (u # us) =
     (if isHighSurrogate u then
        (case us of
           [] \<Rightarrow> None
         | l # rest \<Rightarrow>
             if isLowSurrogate l
             then map_option ((#) (0x10000 + (u - 0xD800) * 0x400 + (l - 0xDC00))) (codePoints rest)
             else None)
      else if isLowSurrogate u then None
      else map_option ((#) u) (codePoints us))"

definition utf8 :: "nat \<Rightarrow> nat list" where
  "utf8 c =
     (if c < 0x80 then [c]
      else if c < 0x800 then [0xC0 + c div 0x40, 0x80 + c mod 0x40]
      else if c < 0x10000 then [0xE0 + c div 0x1000, 0x80 + c div 0x40 mod 0x40, 0x80 + c mod 0x40]
      else [0xF0 + c div 0x40000, 0x80 + c div 0x1000 mod 0x40, 0x80 + c div 0x40 mod 0x40,
            0x80 + c mod 0x40])"

definition stringToBytes :: "16 word list \<Rightarrow> 8 word list option" where
  "stringToBytes text = map_option (\<lambda>cs. map of_nat (concat (map utf8 cs))) (codePoints (map unat text))"

section \<open>Bytes\<close>

text \<open>\<^verbatim>\<open>validateAndPad\<close>: the step every accepting bytes case ends with.\<close>

definition validateAndPad :: "BytesType \<Rightarrow> string \<Rightarrow> Input \<Rightarrow> string \<Rightarrow> BytesType error + string" where
  "validateAndPad dataType asHex0 input argName =
     (let asHex = toLowerCase asHex0
      in if isStatic dataType then
           if (of_nat (length asHex) - 2) / 2 > (of_nat (bytesLength dataType) :: rat)
           then Inl (TypeMismatchError dataType input argName 5
                  (overlongMessage (bytesLength dataType) ((of_nat (length asHex) - 2) / 2)))
           else Inr (padEnd asHex (bytesLength dataType * 2 + 2) ''00'')
         else Inr asHex)"

text \<open>What every accepting case does with the outcome of \<^verbatim>\<open>validateAndPad\<close>.\<close>

definition returnBytes :: "BytesType \<Rightarrow> BytesType error + string \<Rightarrow> (BytesType, BytesValue) gen" where
  "returnBytes dataType padded =
     (case padded of
        Inl e \<Rightarrow> Throw e
      | Inr asHex \<Rightarrow> Return \<lparr> type = dataType, kind = KValue, payload = asHex \<rparr>)"

definition bytesFromHexString :: "(BytesType, BytesValue) Case" where
  "bytesFromHexString dataType input wrapOptions =
     (case input of
        IString s \<Rightarrow>
          if \<not> isByteString s
          then Throw (TypeMismatchError dataType input (name wrapOptions) 5 (notABytestringMessage ''Input''))
          else returnBytes dataType (validateAndPad dataType s input (name wrapOptions))
      | _ \<Rightarrow> Throw (TypeMismatchError dataType input (name wrapOptions) 1 (Literal ''Input was not a string'')))"

definition bytesFromBoxedString :: "(BytesType, BytesValue) Case" where
  "bytesFromBoxedString dataType input wrapOptions =
     (case input of
        IBoxedString s \<Rightarrow> bytesFromHexString dataType (IString s) wrapOptions
      | _ \<Rightarrow> Throw (TypeMismatchError dataType input (name wrapOptions) 1
               (Literal ''Input was not a boxed string'')))"

text \<open>\<^verbatim>\<open>validateUint8ArrayLike\<close>. An index past the stored elements reads
  \<^verbatim>\<open>undefined\<close>, which is not a number.\<close>

definition elementAt :: "Element list \<Rightarrow> nat \<Rightarrow> Element" where
  "elementAt elements index = (if index < length elements then elements ! index else NonNumber)"

definition notOneByte :: "Element \<Rightarrow> bool" where
  "notOneByte x =
     (case x of
        NonNumber \<Rightarrow> True
      | Num n \<Rightarrow> numberLess n 0 \<or> numberGreaterEq n 256 \<or> \<not> isInteger n)"

definition lengthOf :: "number \<Rightarrow> nat" where
  "lengthOf n = (case n of Finite b \<Rightarrow> nat (integerPart b) | _ \<Rightarrow> 0)"

definition validateUint8ArrayLike :: "Uint8ArrayLike \<Rightarrow> 't \<Rightarrow> string \<Rightarrow> 't error + unit" where
  "validateUint8ArrayLike input dataType argName =
     (case input of
        Uint8Array _ \<Rightarrow> Inr ()
      | ArrayLike len elements \<Rightarrow>
          if \<not> isSafeInteger len
          then Inl (TypeMismatchError dataType (IUint8ArrayLike input) argName 5
                 (Literal ''Input is byte-array-like, but its length is not a safe integer''))
          else if numberLess len 0
          then Inl (TypeMismatchError dataType (IUint8ArrayLike input) argName 5
                 (Literal ''Input is byte-array-like, but its length is negative''))
          else (case find (\<lambda>index. notOneByte (elementAt elements index)) [0..<lengthOf len] of
                  Some index \<Rightarrow>
                    Inl (TypeMismatchError dataType (IUint8ArrayLike input) argName 5
                      (Literal (''Input is byte-array-like, but byte '' @ showNat index @
                                '' is not a 1-byte value (number from 0 to 255)'')))
                | None \<Rightarrow> Inr ()))"

text \<open>\<^verbatim>\<open>new Uint8Array(input)\<close>; only validated inputs reach it.\<close>

definition toUint8 :: "Element \<Rightarrow> 8 word" where
  "toUint8 x = (case x of Num (Finite b) \<Rightarrow> word_of_int (integerPart b) | _ \<Rightarrow> 0)"

definition newUint8Array :: "Uint8ArrayLike \<Rightarrow> 8 word list" where
  "newUint8Array input =
     (case input of
        Uint8Array bs \<Rightarrow> bs
      | ArrayLike len elements \<Rightarrow> map (\<lambda>index. toUint8 (elementAt elements index)) [0..<lengthOf len])"

definition bytesFromUint8ArrayLike :: "(BytesType, BytesValue) Case" where
  "bytesFromUint8ArrayLike dataType input wrapOptions =
     (case input of
        IUint8ArrayLike a \<Rightarrow>
          (case validateUint8ArrayLike a dataType (name wrapOptions) of
             Inl e \<Rightarrow> Throw e
           | Inr _ \<Rightarrow>
               returnBytes dataType
                 (validateAndPad dataType (toHexString (newUint8Array a)) input (name wrapOptions)))
      | _ \<Rightarrow> Throw (TypeMismatchError dataType input (name wrapOptions) 1
               (Literal ''Input was not a Uint8Array-like'')))"

definition bytesFromEncodingTextInput :: "(BytesType, BytesValue) Case" where
  "bytesFromEncodingTextInput dataType input wrapOptions =
     (case input of
        IEncodingText encoding text \<Rightarrow>
          if encoding \<noteq> ''utf8''
          then Throw (TypeMismatchError dataType input (name wrapOptions) 5
                 (Literal (''Unknown or unsupported text encoding '' @ encoding)))
          else (case stringToBytes text of
                  None \<Rightarrow> Throw (TypeMismatchError dataType input (name wrapOptions) 5 invalidUtf16Message)
                | Some bs \<Rightarrow>
                    returnBytes dataType
                      (validateAndPad dataType (toHexString bs) input (name wrapOptions)))
      | _ \<Rightarrow> Throw (TypeMismatchError dataType input (name wrapOptions) 1
               (Literal ''Input was not a in encoding/text form'')))"

definition bytesFromBytesValue :: "(BytesType, BytesValue) Case" where
  "bytesFromBytesValue dataType input wrapOptions =
     (case input of
        IWrapped w \<Rightarrow>
          (case w of
             WBytesValue inputType asHex \<Rightarrow>
               if \<not> loose wrapOptions \<and>
                  \<not> (isDynamic inputType \<and> isDynamic dataType) \<and>
                  \<not> (isStatic inputType \<and> isStatic dataType \<and>
                      bytesLength inputType = bytesLength dataType)
               then Throw (TypeMismatchError dataType input (name wrapOptions) 5
                      (wrappedTypeMessage (wtype w)))
               else returnBytes dataType (validateAndPad dataType asHex input (name wrapOptions))
           | WErrorResult (BytesT _) _ \<Rightarrow>
               Throw (TypeMismatchError dataType input (name wrapOptions) 5 errorResultMessage)
           | _ \<Rightarrow>
               Throw (TypeMismatchError dataType input (name wrapOptions) 5
                 (wrappedTypeMessage (wtype w))))
      | _ \<Rightarrow> Throw (TypeMismatchError dataType input (name wrapOptions) 1
               (Literal ''Input was not a wrapped result'')))"

definition bytesFailureCase :: "(BytesType, BytesValue) Case" where
  "bytesFailureCase dataType input wrapOptions =
     Throw (TypeMismatchError dataType input (name wrapOptions) 2
       (Literal ''Input was not a hex string, byte-array-alike, encoding/text pair, type/value pair, or wrapped bytestring''))"

definition bytesCasesBasic :: "(BytesType, BytesValue) Case list" where
  "bytesCasesBasic =
     [bytesFromHexString,
      bytesFromBoxedString,
      bytesFromUint8ArrayLike,
      bytesFromBytesValue,
      bytesFromEncodingTextInput,
      bytesFailureCase]"

text \<open>The two patterns of \<^verbatim>\<open>bytesFromTypeValueInput\<close>:
  \<^verbatim>\<open>/^byte(s\d*)?$/\<close> and \<^verbatim>\<open>/^bytes(\d+)$/\<close>, the latter with its group.\<close>

definition matchesByte :: "string \<Rightarrow> bool" where
  "matchesByte s = (s = ''byte'' \<or> (take 5 s = ''bytes'' \<and> list_all isDigit (drop 5 s)))"

definition matchBytesN :: "string \<Rightarrow> string option" where
  "matchBytesN s =
     (if take 5 s = ''bytes'' \<and> drop 5 s \<noteq> [] \<and> list_all isDigit (drop 5 s)
      then Some (drop 5 s) else None)"

definition specifiedLength :: "string \<Rightarrow> nat option" where
  "specifiedLength s =
     (case matchBytesN s of
        Some digits \<Rightarrow> Some (digitsToNumber digits)
      | None \<Rightarrow> if s = ''byte'' then Some 1 else None)"

definition bytesFromTypeValueInput :: "(BytesType, BytesValue) Case" where
  "bytesFromTypeValueInput dataType input wrapOptions =
     (case input of
        ITypeValue ty v \<Rightarrow>
          if \<not> matchesByte ty
          then Throw (TypeMismatchError dataType input (name wrapOptions) 5 (specifiedTypeMessage ty))
          else
            let len = specifiedLength ty
            in if \<not> (len = None \<and> isDynamic dataType) \<and>
                  \<not> (isStatic dataType \<and> len = Some (bytesLength dataType))
               then Throw (TypeMismatchError dataType input (name wrapOptions) 5
                      (specifiedTypeMessage ty))
               else wrapWithCases dataType v (wrapOptions\<lparr>loose := True\<rparr>) bytesCasesBasic
      | _ \<Rightarrow> Throw (TypeMismatchError dataType input (name wrapOptions) 1
               (Literal ''Input was not a type/value pair'')))"

definition bytesCases :: "(BytesType, BytesValue) Case list" where
  "bytesCases = bytesFromTypeValueInput # bytesCasesBasic"

section \<open>Decimals\<close>

text \<open>
  Modelled from the spec: \<^verbatim>\<open>Utils.maxValue\<close> and \<^verbatim>\<open>Utils.minValue\<close> are not among
  the sources. The spec (3) gives the unsigned range as \<open>[0, 2^bits / 10^places)\<close> and the
  signed range as \<open>[-2^(bits-1) / 10^places, 2^(bits-1) / 10^places)\<close>, and has the validator
  reject what is outside \<open>[minValue, maxValue]\<close>: the greatest value of the range with at most
  \<open>places\<close> fractional digits is the open bound less one unit in the last place.
\<close>

definition maxValue :: "DecimalType \<Rightarrow> big" where
  "maxValue dataType =
     (case typeClass dataType of
        Ufixed \<Rightarrow> Big (2 ^ bits dataType - 1) (places dataType)
      | Fixed \<Rightarrow> Big (2 ^ (bits dataType - 1) - 1) (places dataType))"

definition minValue :: "DecimalType \<Rightarrow> big" where
  "minValue dataType =
     (case typeClass dataType of
        Ufixed \<Rightarrow> Big 0 0
      | Fixed \<Rightarrow> Big (- (2 ^ (bits dataType - 1))) (places dataType))"

text \<open>
  Modelled from the spec: \<^verbatim>\<open>Utils.isSafeNumber\<close> is not among the sources; the spec
  has a numeric literal rejected when it is outside the safe-precision range of a native
  floating literal. Here: the number, scaled by \<open>10^places\<close>, is within the safe integers.
\<close>

definition isSafeNumber :: "DecimalType \<Rightarrow> number \<Rightarrow> bool" where
  "isSafeNumber dataType n =
     (case n of
        Finite b \<Rightarrow> \<bar>unscaled b\<bar> * 10 ^ places dataType \<le> (2 ^ 53 - 1) * 10 ^ scale b
      | _ \<Rightarrow> False)"

text \<open>\<^verbatim>\<open>validate\<close>: the check every accepting decimal case ends with.\<close>

definition validate :: "DecimalType \<Rightarrow> big \<Rightarrow> Input \<Rightarrow> string \<Rightarrow> DecimalType error + unit" where
  "validate dataType asBig input argName =
     (if countDecimalPlaces asBig > places dataType
      then Inl (TypeMismatchError dataType input argName 5
             (tooPreciseMessage (places dataType) (countDecimalPlaces asBig)))
      else if big_gt asBig (maxValue dataType) \<or> big_lt asBig (minValue dataType)
      then Inl (TypeMismatchError dataType input argName 5 outOfRangeMessage)
      else Inr ())"

text \<open>What every accepting case does after \<^verbatim>\<open>validate\<close>.\<close>

definition returnDecimal ::
  "DecimalType \<Rightarrow> big \<Rightarrow> DecimalType error + unit \<Rightarrow> (DecimalType, DecimalValue) gen" where
  "returnDecimal dataType asBig validated =
     (case validated of
        Inl e \<Rightarrow> Throw e
      | Inr _ \<Rightarrow> Return \<lparr> type = dataType, kind = KValue, payload = asBig \<rparr>)"

definition decimalFromBig :: "(DecimalType, DecimalValue) Case" where
  "decimalFromBig dataType input wrapOptions =
     (case input of
        IBig b \<Rightarrow> returnDecimal dataType b (validate dataType b input (name wrapOptions))
      | _ \<Rightarrow> Throw (TypeMismatchError dataType input (name wrapOptions) 1 (Literal ''Input was not a Big'')))"

definition decimalFromBN :: "(DecimalType, DecimalValue) Case" where
  "decimalFromBN dataType input wrapOptions =
     (case input of
        IBN n \<Rightarrow> returnDecimal dataType (toBig n) (validate dataType (toBig n) input (name wrapOptions))
      | _ \<Rightarrow> Throw (TypeMismatchError dataType input (name wrapOptions) 1 (Literal ''Input was not a BN'')))"

definition decimalFromBigint :: "(DecimalType, DecimalValue) Case" where
  "decimalFromBigint dataType input wrapOptions =
     (case input of
        IBigint n \<Rightarrow> returnDecimal dataType (toBig n) (validate dataType (toBig n) input (name wrapOptions))
      | _ \<Rightarrow> Throw (TypeMismatchError dataType input (name wrapOptions) 1
               (Literal ''Input was not a bigint'')))"

text \<open>
  The constructor \<^verbatim>\<open>new Big(string)\<close> belongs to big.js, not to the repository; it is
  the parameter \<open>newBig\<close> of the cases below, with \<open>None\<close> where it throws.
\<close>

definition decimalFromString :: "(string \<Rightarrow> big option) \<Rightarrow> (DecimalType, DecimalValue) Case" where
  "decimalFromString newBig dataType input wrapOptions =
     (case input of
        IString s \<Rightarrow>
          let trimmed = trim s
          in (case newBig trimmed of
                None \<Rightarrow> Throw (TypeMismatchError dataType input (name wrapOptions) 5 nonNumericMessage)
              | Some asBig \<Rightarrow>
                  returnDecimal dataType asBig (validate dataType asBig input (name wrapOptions)))
      | _ \<Rightarrow> Throw (TypeMismatchError dataType input (name wrapOptions) 1
               (Literal ''Input was not a string'')))"

definition decimalFromNumber :: "(DecimalType, DecimalValue) Case" where
  "decimalFromNumber dataType input wrapOptions =
     (case input of
        INumber n \<Rightarrow>
          (case n of
             Finite asBig \<Rightarrow>
               if \<not> isSafeNumber dataType n
               then Throw (TypeMismatchError dataType input (name wrapOptions) 5
                      (Literal ''Given number is outside the safe range for this data type (possible loss of precision); use a numeric string, bigint, or big number class instead''))
               else returnDecimal dataType asBig (validate dataType asBig input (name wrapOptions))
           | _ \<Rightarrow> Throw (TypeMismatchError dataType input (name wrapOptions) 5
                    (Literal ''Numeric value is not finite'')))
      | _ \<Rightarrow> Throw (TypeMismatchError dataType input (name wrapOptions) 1
               (Literal ''Input was not a number'')))"

definition decimalFromBoxedString :: "(string \<Rightarrow> big option) \<Rightarrow> (DecimalType, DecimalValue) Case" where
  "decimalFromBoxedString newBig dataType input wrapOptions =
     (case input of
        IBoxedString s \<Rightarrow> decimalFromString newBig dataType (IString s) wrapOptions
      | _ \<Rightarrow> Throw (TypeMismatchError dataType input (name wrapOptions) 1
               (Literal ''Input was not a boxed string'')))"

definition decimalFromBoxedNumber :: "(DecimalType, DecimalValue) Case" where
  "decimalFromBoxedNumber dataType input wrapOptions =
     (case input of
        IBoxedNumber n \<Rightarrow> decimalFromNumber dataType (INumber n) wrapOptions
      | _ \<Rightarrow> Throw (TypeMismatchError dataType input (name wrapOptions) 1
               (Literal ''Input was not a boxed number'')))"

definition decimalFromDecimalValue :: "(DecimalType, DecimalValue) Case" where
  "decimalFromDecimalValue dataType input wrapOptions =
     (case input of
        IWrapped w \<Rightarrow>
          (case w of
             WDecimalValue inputType asBig \<Rightarrow>
               if \<not> loose wrapOptions \<and>
                  (typeClass inputType \<noteq> typeClass dataType \<or>
                   bits inputType \<noteq> bits dataType \<or>
                   places inputType \<noteq> places dataType)
               then Throw (TypeMismatchError dataType input (name wrapOptions) 5
                      (wrappedTypeMessage (wtype w)))
               else returnDecimal dataType asBig (validate dataType asBig input (name wrapOptions))
           | WErrorResult (DecimalT _) _ \<Rightarrow>
               Throw (TypeMismatchError dataType input (name wrapOptions) 5 errorResultMessage)
           | _ \<Rightarrow>
               Throw (TypeMismatchError dataType input (name wrapOptions) 5
                 (wrappedTypeMessage (wtype w))))
      | _ \<Rightarrow> Throw (TypeMismatchError dataType input (name wrapOptions) 1
               (Literal ''Input was not a wrapped result'')))"

definition decimalFromIntegerValue :: "(DecimalType, DecimalValue) Case" where
  "decimalFromIntegerValue dataType input wrapOptions =
     (case input of
        IWrapped w \<Rightarrow>
          (case w of
             WIntegerValue _ _ asBN \<Rightarrow>
               if \<not> loose wrapOptions
               then Throw (TypeMismatchError dataType input (name wrapOptions) 5
                      (wrappedTypeMessage (wtype w)))
               else returnDecimal dataType (toBig asBN)
                      (validate dataType (toBig asBN) input (name wrapOptions))
           | WErrorResult (IntegerT _ _) _ \<Rightarrow>
               Throw (TypeMismatchError dataType input (name wrapOptions) 5 errorResultMessage)
           | _ \<Rightarrow>
               Throw (TypeMismatchError dataType input (name wrapOptions) 5
                 (wrappedTypeMessage (wtype w))))
      | _ \<Rightarrow> Throw (TypeMismatchError dataType input (name wrapOptions) 1
               (Literal ''Input was not a wrapped result'')))"

definition decimalFromEnumValue :: "(DecimalType, DecimalValue) Case" where
  "decimalFromEnumValue dataType input wrapOptions =
     (case input of
        IWrapped w \<Rightarrow>
          (case w of
             WEnumValue _ numericAsBN \<Rightarrow>
               if \<not> loose wrapOptions
               then Throw (TypeMismatchError dataType input (name wrapOptions) 5
                      (wrappedTypeMessage (wtype w)))
               else returnDecimal dataType (toBig numericAsBN)
                      (validate dataType (toBig numericAsBN) input (name wrapOptions))
           | WErrorResult (EnumT _) _ \<Rightarrow>
               Throw (TypeMismatchError dataType input (name wrapOptions) 1 errorResultMessage)
           | _ \<Rightarrow>
               Throw (TypeMismatchError dataType input (name wrapOptions) 5
                 (wrappedTypeMessage (wtype w))))
      | _ \<Rightarrow> Throw (TypeMismatchError dataType input (name wrapOptions) 1
               (Literal ''Input was not a wrapped result'')))"

definition decimalFromEnumError :: "(DecimalType, DecimalValue) Case" where
  "decimalFromEnumError dataType input wrapOptions =
     (case input of
        IWrapped w \<Rightarrow>
          (case w of
             WErrorResult (EnumT _) info \<Rightarrow>
               if \<not> loose wrapOptions
               then Throw (TypeMismatchError dataType input (name wrapOptions) 5
                      (wrappedTypeMessage (wtype w)))
               else (case info of
                       EnumOutOfRangeError rawAsBN \<Rightarrow>
                         returnDecimal dataType (toBig rawAsBN)
                           (validate dataType (toBig rawAsBN) input (name wrapOptions))
                     | OtherError _ \<Rightarrow>
                         Throw (TypeMismatchError dataType input (name wrapOptions) 5
                           errorResultMessage))
           | WEnumValue _ _ \<Rightarrow>
               Throw (TypeMismatchError dataType input (name wrapOptions) 1
                 (Literal ''Wrapped result was a value rather than an error''))
           | _ \<Rightarrow>
               Throw (TypeMismatchError dataType input (name wrapOptions) 5
                 (wrappedTypeMessage (wtype w))))
      | _ \<Rightarrow> Throw (TypeMismatchError dataType input (name wrapOptions) 1
               (Literal ''Input was not a wrapped result'')))"

text \<open>\<^verbatim>\<open>response.reason || Messages.unrecognizedNumberMessage(dataType)\<close>: a missing
  or empty reason gives the default message.\<close>

definition reasonOrDefault :: "string option \<Rightarrow> DecimalType \<Rightarrow> Reason" where
  "reasonOrDefault reason dataType =
     (case reason of
        None \<Rightarrow> unrecognizedNumberMessage dataType
      | Some r \<Rightarrow> if r = [] then unrecognizedNumberMessage dataType else Literal r)"

definition decimalFromOther :: "(DecimalType, DecimalValue) Case" where
  "decimalFromOther dataType input wrapOptions =
     (let request = DecimalWrapRequest input
      in Yield request (\<lambda>response.
           case response of
             OtherWrapResponse \<Rightarrow> Throw (BadResponseTypeError request response)
           | DecimalWrapResponse None reason partiallyRecognized \<Rightarrow>
               Throw (TypeMismatchError dataType input (name wrapOptions)
                 (if partiallyRecognized = Some True then 5 else 3)
                 (reasonOrDefault reason dataType))
           | DecimalWrapResponse (Some asBig) _ _ \<Rightarrow>
               returnDecimal dataType asBig (validate dataType asBig input (name wrapOptions))))"

definition decimalCasesBasic :: "(string \<Rightarrow> big option) \<Rightarrow> (DecimalType, DecimalValue) Case list" where
  "decimalCasesBasic newBig =
     [decimalFromNumber,
      decimalFromString newBig,
      decimalFromBoxedNumber,
      decimalFromBoxedString newBig,
      decimalFromBigint,
      decimalFromBN,
      decimalFromBig,
      decimalFromDecimalValue,
      decimalFromIntegerValue,
      decimalFromEnumValue,
      decimalFromEnumError,
      decimalFromOther]"

text \<open>
  The pattern of \<^verbatim>\<open>decimalFromTypeValueInput\<close>,
  \<^verbatim>\<open>/^(u?fixed)((\d+)(x(\d+))?)?$/\<close>, with its groups 1, 3 and 5: the class, the
  digits of the bits and the digits of the places. The pattern tested first,
  \<^verbatim>\<open>/^u?fixed(\d+(x\d+)?)?$/\<close>, accepts the same strings.
\<close>

definition typeName :: "TypeClass \<Rightarrow> string" where
  "typeName c = (case c of Fixed \<Rightarrow> ''fixed'' | Ufixed \<Rightarrow> ''ufixed'')"

definition matchSuffix :: "string \<Rightarrow> (string option \<times> string option) option" where
  "matchSuffix rest =
     (if rest = [] then Some (None, None)
      else
        let bitsAsString = takeWhile isDigit rest; after = dropWhile isDigit rest
        in if bitsAsString = [] then None
           else if after = [] then Some (Some bitsAsString, None)
           else if hd after = CHR ''x'' \<and> tl after \<noteq> [] \<and> list_all isDigit (tl after)
           then Some (Some bitsAsString, Some (tl after))
           else None)"

definition matchFixed :: "string \<Rightarrow> (TypeClass \<times> string option \<times> string option) option" where
  "matchFixed s =
     (if take 6 s = ''ufixed'' then map_option (Pair Ufixed) (matchSuffix (drop 6 s))
      else if take 5 s = ''fixed'' then map_option (Pair Fixed) (matchSuffix (drop 5 s))
      else None)"

definition decimalFromTypeValueInput :: "(string \<Rightarrow> big option) \<Rightarrow> (DecimalType, DecimalValue) Case" where
  "decimalFromTypeValueInput newBig dataType input wrapOptions =
     (case input of
        ITypeValue ty v \<Rightarrow>
          (case matchFixed ty of
             None \<Rightarrow>
               Throw (TypeMismatchError dataType input (name wrapOptions) 5 (specifiedTypeMessage ty))
           | Some (typeClass', bitsAsString, placesAsString) \<Rightarrow>
               let bits' = (case bitsAsString of Some ds \<Rightarrow> digitsToNumber ds | None \<Rightarrow> 128);
                   places' = (case placesAsString of Some ds \<Rightarrow> digitsToNumber ds | None \<Rightarrow> 18)
               in if typeClass dataType \<noteq> typeClass' \<or>
                     bits dataType \<noteq> bits' \<or>
                     places dataType \<noteq> places'
                  then Throw (TypeMismatchError dataType input (name wrapOptions) 5
                         (specifiedTypeMessage ty))
                  else wrapWithCases dataType v (wrapOptions\<lparr>loose := True\<rparr>)
                         (decimalCasesBasic newBig))
      | _ \<Rightarrow> Throw (TypeMismatchError dataType input (name wrapOptions) 1
               (Literal ''Input was not a type/value pair'')))"

definition decimalCases :: "(string \<Rightarrow> big option) \<Rightarrow> (DecimalType, DecimalValue) Case list" where
  "decimalCases newBig = decimalFromTypeValueInput newBig # decimalCasesBasic newBig"

section \<open>Notions of the specification\<close>

text \<open>A case fails under a resolver with a Mismatch \<open>e\<close>.\<close>

definition failsWith ::
  "(WrapRequest \<Rightarrow> WrapResponse) \<Rightarrow> 't \<Rightarrow> Input \<Rightarrow> WrapOptions \<Rightarrow> ('t, 'a) Case \<Rightarrow> 't error \<Rightarrow> bool" where
  "failsWith resolver dataType input wrapOptions caseFn e =
     (drive resolver (caseFn dataType input wrapOptions) = Inl e \<and> isMismatch e)"

text \<open>The error at index \<open>i\<close> has the maximum specificity of the list and is the
  earliest of the list to have it.\<close>

definition isEarliestMax :: "'t error list \<Rightarrow> nat \<Rightarrow> bool" where
  "isEarliestMax es i =
     (i < length es \<and>
      list_all (\<lambda>e. specificity e \<le> specificity (es ! i)) es \<and>
      list_all (\<lambda>e. specificity e < specificity (es ! i)) (take i es))"

text \<open>
  An instance of the constructor of big.js for the examples. It reads the plain notation
  only: an optional minus sign, digits, and an optional point with digits. The theorems
  hold for every constructor.
\<close>

definition plainDecimal :: "string \<Rightarrow> big option" where
  "plainDecimal s =
     (let negative = (s \<noteq> [] \<and> hd s = CHR ''-'');
          body = (if negative then tl s else s);
          whole = takeWhile isDigit body;
          rest = dropWhile isDigit body;
          sign = (if negative then - 1 else 1)
      in if whole = [] then None
         else if rest = [] then Some (Big (sign * int (digitsToNumber whole)) 0)
         else if hd rest = CHR ''.'' \<and> tl rest \<noteq> [] \<and> list_all isDigit (tl rest)
         then Some (Big (sign * int (digitsToNumber (whole @ tl rest))) (length (tl rest)))
         else None)"

text \<open>Types and options of the examples.\<close>

definition bytes2 :: BytesType where
  "bytes2 = BytesStatic 2"

definition bytes4 :: BytesType where
  "bytes4 = BytesStatic 4"

definition ufixed8x0 :: DecimalType where
  "ufixed8x0 = \<lparr>typeClass = Ufixed, bits = 8, places = 0\<rparr>"

definition ufixed128x18 :: DecimalType where
  "ufixed128x18 = \<lparr>typeClass = Ufixed, bits = 128, places = 18\<rparr>"

definition fixed128x18 :: DecimalType where
  "fixed128x18 = \<lparr>typeClass = Fixed, bits = 128, places = 18\<rparr>"

definition strict :: WrapOptions where
  "strict = \<lparr>name = ''arg'', loose = False\<rparr>"

definition mismatches :: "'t \<Rightarrow> Input \<Rightarrow> (nat \<times> Reason) list \<Rightarrow> 't error list" where
  "mismatches dataType input rs =
     map (\<lambda>(s, reason). TypeMismatchError dataType input ''arg'' s reason) rs"

text \<open>
  Options with \<open>loose\<close> set.
\<close>

definition lenient :: WrapOptions where
  "lenient = \<lparr>name = ''arg'', loose = True\<rparr>"

text \<open>
  The number a decimal stands for.
\<close>

definition bigValue :: "big \<Rightarrow> rat" where
  "bigValue b = of_int (unscaled b) / 10 ^ scale b"

text \<open>
  The ranges of the specification (3): \<open>[0, 2^bits / 10^places)\<close> for an unsigned type and
  \<open>[-2^(bits-1) / 10^places, 2^(bits-1) / 10^places)\<close> for a signed one.
\<close>

definition inSpecRange :: "DecimalType \<Rightarrow> big \<Rightarrow> bool" where
  "inSpecRange dataType b =
     (case typeClass dataType of
        Ufixed \<Rightarrow> 0 \<le> bigValue b \<and> bigValue b < 2 ^ bits dataType / 10 ^ places dataType
      | Fixed \<Rightarrow> - (2 ^ (bits dataType - 1)) / 10 ^ places dataType \<le> bigValue b \<and>
                 bigValue b < 2 ^ (bits dataType - 1) / 10 ^ places dataType)"

text \<open>
  The range check of \<^verbatim>\<open>validate\<close>: neither above \<open>maxValue\<close> nor below \<open>minValue\<close>.
\<close>

definition withinRange :: "DecimalType \<Rightarrow> big \<Rightarrow> bool" where
  "withinRange dataType b = (\<not> big_gt b (maxValue dataType) \<and> \<not> big_lt b (minValue dataType))"

text \<open>
  The byte length \<^verbatim>\<open>(asHex.length - 2) / 2\<close> of a hex string.
\<close>

definition byteLength :: "string \<Rightarrow> rat" where
  "byteLength asHex = (of_nat (length asHex) - 2) / 2"

text \<open>
  The payload the specification asks of a static type: the lowercased hex string,
  padded on the right with zeros to the 2 + 2 * length characters of the type.
\<close>

definition padded :: "nat \<Rightarrow> string \<Rightarrow> string" where
  "padded len asHex = toLowerCase asHex @ replicate (2 * len + 2 - length asHex) CHR ''0''"

text \<open>
  The outcome the specification asks of an accepting case on a static type: the overlong
  Mismatch of specificity 5 when the bytes are more than the type has, the padded value
  otherwise.
\<close>

definition paddedOrOverlong :: "nat \<Rightarrow> string \<Rightarrow> Input \<Rightarrow> WrapOptions \<Rightarrow> (BytesType, BytesValue) gen" where
  "paddedOrOverlong len asHex input wrapOptions =
     (if of_nat len < byteLength asHex
      then Throw (TypeMismatchError (BytesStatic len) input (name wrapOptions) 5
             (overlongMessage len (byteLength asHex)))
      else Return \<lparr>type = BytesStatic len, kind = KValue, payload = padded len asHex\<rparr>)"

text \<open>
  What holds of every bytes value a case returns.
\<close>

definition goodBytes :: "BytesType \<Rightarrow> BytesValue \<Rightarrow> bool" where
  "goodBytes dt v = (type v = dt \<and> kind v = KValue \<and>
     (isStatic dt \<longrightarrow> length (payload v) = 2 * bytesLength dt + 2))"

text \<open>
  What holds of every decimal value a case returns.
\<close>

definition goodDecimal :: "DecimalType \<Rightarrow> DecimalValue \<Rightarrow> bool" where
  "goodDecimal dt v = (type v = dt \<and> kind v = KValue \<and>
     countDecimalPlaces (payload v) \<le> places dt \<and> withinRange dt (payload v))"

text \<open>
  A canonical bytes value of the specification (3): a lowercase hex string with the
  prefix and an even length, of exactly the length of a static type.
\<close>

definition canonicalBytes :: "BytesType \<Rightarrow> string \<Rightarrow> bool" where
  "canonicalBytes t asHex =
     (isByteString asHex \<and> toLowerCase asHex = asHex \<and>
      (isStatic t \<longrightarrow> length asHex = 2 * bytesLength t + 2))"

text \<open>
  A canonical decimal value of the specification (3): no more fractional digits than the
  places of the type, and within its range.
\<close>

definition canonicalDecimal :: "DecimalType \<Rightarrow> big \<Rightarrow> bool" where
  "canonicalDecimal t asBig = (countDecimalPlaces asBig \<le> places t \<and> withinRange t asBig)"

text \<open>
  The type strings of a type/value pair: the class with bits and places, the class with
  bits alone (18 places), or the class alone (128 bits, 18 places).
\<close>

definition declared :: "TypeClass \<Rightarrow> nat \<Rightarrow> nat \<Rightarrow> string \<Rightarrow> bool" where
  "declared tc b p ty =
     (ty = typeName tc @ showNat b @ ''x'' @ showNat p \<or>
      (ty = typeName tc @ showNat b \<and> p = 18) \<or>
      (ty = typeName tc \<and> b = 128 \<and> p = 18))"

text \<open>
  The outcome of a case without the input that an error repeats: the value, or the
  specificity and reason of the error.
\<close>

definition outcome :: "'t error + 'a \<Rightarrow> (nat \<times> Reason option) + 'a" where
  "outcome x = (case x of Inl e \<Rightarrow> Inl (specificity e, reasonOf e) | Inr v \<Rightarrow> Inr v)"

section \<open>The engine\<close>

lemma drive_tryCase:
  "drive r (tryCase g h) =
     (case drive r g of
        Inr v \<Rightarrow> Inr v
      | Inl e \<Rightarrow> if isMismatch e then drive r (h e) else Inl e)"
  by (induction g) simp_all

lemma selectError_Cons_ex: "\<exists>e. selectError (x # xs) = Some e"
  by (cases "selectError xs") auto

lemma selectError_None: "selectError es = None \<Longrightarrow> es = []"
proof (cases es)
  case Nil
  then show ?thesis by simp
next
  case (Cons x xs)
  assume "selectError es = None"
  with Cons selectError_Cons_ex[of x xs] show ?thesis by simp
qed

lemma selectError_earliest:
  "selectError es = Some e \<Longrightarrow> \<exists>i. isEarliestMax es i \<and> es ! i = e"
proof (induction es arbitrary: e)
  case Nil
  then show ?case by simp
next
  case (Cons x xs)
  show ?case
  proof (cases "selectError xs")
    case None
    then have "xs = []" by (rule selectError_None)
    with Cons.prems have "isEarliestMax (x # xs) 0 \<and> (x # xs) ! 0 = e"
      by (simp add: isEarliestMax_def)
    then show ?thesis by blast
  next
    case (Some later)
    from Cons.IH[OF Some] obtain i where i: "isEarliestMax xs i" "xs ! i = later" by blast
    show ?thesis
    proof (cases "specificity x < specificity later")
      case True
      with Some Cons.prems have e: "e = later" by simp
      from i True have "isEarliestMax (x # xs) (Suc i)"
        by (auto simp: isEarliestMax_def)
      with i e show ?thesis by auto
    next
      case False
      with Some Cons.prems have e: "e = x" by simp
      from i False have "isEarliestMax (x # xs) 0"
        by (auto simp: isEarliestMax_def list_all_iff)
      with e show ?thesis by auto
    qed
  qed
qed

lemma drive_runCases_all_fail:
  "list_all2 (failsWith r dt inp opts) cases es \<Longrightarrow>
   drive r (runCases cases dt inp opts recorded) =
     (case selectError (recorded @ es) of None \<Rightarrow> Inl NoCasesError | Some e \<Rightarrow> Inl e)"
proof (induction cases arbitrary: es recorded)
  case Nil
  then show ?case by (simp split: option.split)
next
  case (Cons c cs)
  then obtain e es' where es: "es = e # es'" "failsWith r dt inp opts c e"
    "list_all2 (failsWith r dt inp opts) cs es'"
    by (auto simp: list_all2_Cons1)
  from Cons.IH[OF es(3), of "recorded @ [e]"] es(1,2)
  show ?case by (simp add: drive_tryCase failsWith_def)
qed

lemma run_all_fail:
  assumes "list_all2 (failsWith r dt inp opts) cases es" and "cases \<noteq> []"
  shows "\<exists>i. isEarliestMax es i \<and> drive r (wrapWithCases dt inp opts cases) = Inl (es ! i)"
proof -
  from assms have "es \<noteq> []" by auto
  then obtain e where e: "selectError es = Some e"
    using selectError_None[of es] by (cases "selectError es") auto
  from selectError_earliest[OF e] obtain i where "isEarliestMax es i" "es ! i = e" by blast
  with drive_runCases_all_fail[OF assms(1), of "[]"] e show ?thesis
    by (auto simp: wrapWithCases_def)
qed

text \<open>
  C1. In a bytes or decimal run in which every case fails with a Mismatch, the error the
  run raises is one of the recorded errors, of maximum specificity among them, and the
  earliest in list order of those with that specificity. The runs are those over the case
  lists of the source: the full lists, and the basic lists that a type/value pair runs.
  The recorded errors are \<open>bes\<close> (\<open>des\<close>), one for each case in list order.
\<close>

theorem C1_reported_error:
  "((bcases = bytesCases \<or> bcases = bytesCasesBasic) \<and>
    list_all2 (failsWith r bt inp opts) bcases bes \<longrightarrow>
      (\<exists>i. isEarliestMax bes i \<and> drive r (wrapWithCases bt inp opts bcases) = Inl (bes ! i))) \<and>
   ((dcases = decimalCases newBig \<or> dcases = decimalCasesBasic newBig) \<and>
    list_all2 (failsWith r dt inp opts) dcases des \<longrightarrow>
      (\<exists>i. isEarliestMax des i \<and> drive r (wrapWithCases dt inp opts dcases) = Inl (des ! i)))"
proof -
  have b: "bcases \<noteq> []" if "bcases = bytesCases \<or> bcases = bytesCasesBasic"
    using that by (auto simp: bytesCases_def bytesCasesBasic_def)
  have d: "dcases \<noteq> []" if "dcases = decimalCases newBig \<or> dcases = decimalCasesBasic newBig"
    using that by (auto simp: decimalCases_def decimalCasesBasic_def)
  from b d run_all_fail[of r bt inp opts bcases bes] run_all_fail[of r dt inp opts dcases des]
  show ?thesis by blast
qed

text \<open>
  The hex string of three bytes against \<open>bytes2\<close>: six cases fail on the shape, the hex
  case with the overlong error, which is raised. A wrapped enum value against a decimal
  type, not loose, with a resolver that recognises it in part: four cases fail with
  specificity 5, and the first of them in list order is raised.
\<close>

theorem C1_reported_error_witness:
  "(\<exists>es. list_all2 (failsWith (\<lambda>_. OtherWrapResponse) bytes2 (IString ''0x010203'') strict)
           bytesCases es \<and>
         (\<exists>i. isEarliestMax es i \<and>
              drive (\<lambda>_. OtherWrapResponse)
                (wrapWithCases bytes2 (IString ''0x010203'') strict bytesCases) = Inl (es ! i))) \<and>
   drive (\<lambda>_. OtherWrapResponse) (wrapWithCases bytes2 (IString ''0x010203'') strict bytesCases) =
     Inl (TypeMismatchError bytes2 (IString ''0x010203'') ''arg'' 5 (overlongMessage 2 3)) \<and>
   (\<exists>es. list_all2
           (failsWith (\<lambda>_. DecimalWrapResponse None None (Some True)) ufixed8x0
              (IWrapped (WEnumValue ''E'' 1)) strict)
           (decimalCases plainDecimal) es \<and>
         (\<exists>i. isEarliestMax es i \<and>
              drive (\<lambda>_. DecimalWrapResponse None None (Some True))
                (wrapWithCases ufixed8x0 (IWrapped (WEnumValue ''E'' 1)) strict
                   (decimalCases plainDecimal)) = Inl (es ! i))) \<and>
   drive (\<lambda>_. DecimalWrapResponse None None (Some True))
     (wrapWithCases ufixed8x0 (IWrapped (WEnumValue ''E'' 1)) strict (decimalCases plainDecimal)) =
     Inl (TypeMismatchError ufixed8x0 (IWrapped (WEnumValue ''E'' 1)) ''arg'' 5
            (wrappedTypeMessage (EnumT ''E'')))"
  (is "?B \<and> ?rb \<and> ?D \<and> ?rd")
proof -
  have hb: "list_all2 (failsWith (\<lambda>_. OtherWrapResponse) bytes2 (IString ''0x010203'') strict)
      bytesCases
      (mismatches bytes2 (IString ''0x010203'')
        [(1, Literal ''Input was not a type/value pair''),
         (5, overlongMessage 2 3),
         (1, Literal ''Input was not a boxed string''),
         (1, Literal ''Input was not a Uint8Array-like''),
         (1, Literal ''Input was not a wrapped result''),
         (1, Literal ''Input was not a in encoding/text form''),
         (2, Literal ''Input was not a hex string, byte-array-alike, encoding/text pair, type/value pair, or wrapped bytestring'')])"
    by code_simp
  have hd: "list_all2
      (failsWith (\<lambda>_. DecimalWrapResponse None None (Some True)) ufixed8x0
         (IWrapped (WEnumValue ''E'' 1)) strict)
      (decimalCases plainDecimal)
      (mismatches ufixed8x0 (IWrapped (WEnumValue ''E'' 1))
        [(1, Literal ''Input was not a type/value pair''),
         (1, Literal ''Input was not a number''),
         (1, Literal ''Input was not a string''),
         (1, Literal ''Input was not a boxed number''),
         (1, Literal ''Input was not a boxed string''),
         (1, Literal ''Input was not a bigint''),
         (1, Literal ''Input was not a BN''),
         (1, Literal ''Input was not a Big''),
         (5, wrappedTypeMessage (EnumT ''E'')),
         (5, wrappedTypeMessage (EnumT ''E'')),
         (5, wrappedTypeMessage (EnumT ''E'')),
         (1, Literal ''Wrapped result was a value rather than an error''),
         (5, unrecognizedNumberMessage ufixed8x0)])"
    by code_simp
  from hb C1_reported_error[THEN conjunct1, rule_format, OF conjI[OF disjI1[OF refl] hb]]
  have b: ?B by blast
  from hd C1_reported_error[THEN conjunct2, rule_format, OF conjI[OF disjI1[OF refl] hd]]
  have d: ?D by blast
  have rb: ?rb by code_simp
  have rd: ?rd by code_simp
  from b rb d rd show ?thesis by blast
qed

text \<open>
  More on the engine: a run is the first case unless it fails with a Mismatch; the first
  case that returns ends the run; what holds of every value a case returns holds of the
  value of the run.
\<close>

lemma drive_runCases_Cons:
  "drive r (runCases (c # cs) dt inp opts recorded) =
     (case drive r (c dt inp opts) of
        Inr v \<Rightarrow> Inr v
      | Inl e \<Rightarrow> if isMismatch e then drive r (runCases cs dt inp opts (recorded @ [e])) else Inl e)"
  by (simp add: drive_tryCase)

lemma drive_runCases_first_success:
  assumes "list_all2 (failsWith r dt inp opts) pre es"
    and "drive r (c dt inp opts) = Inr v"
  shows "drive r (runCases (pre @ c # post) dt inp opts recorded) = Inr v"
  using assms(1)
proof (induction pre arbitrary: es recorded)
  case Nil
  with assms(2) show ?case by (simp add: drive_tryCase)
next
  case (Cons p ps)
  then obtain e es' where e: "failsWith r dt inp opts p e"
    and es': "list_all2 (failsWith r dt inp opts) ps es'"
    by (auto simp: list_all2_Cons1)
  from Cons.IH[OF es', of "recorded @ [e]"]
  have "drive r (runCases (ps @ c # post) dt inp opts (recorded @ [e])) = Inr v" .
  with e show ?case
    by (simp add: drive_tryCase failsWith_def)
qed

lemma drive_runCases_returns:
  assumes "\<forall>c\<in>set cases. \<forall>v. drive r (c dt inp opts) = Inr v \<longrightarrow> P v"
    and "drive r (runCases cases dt inp opts recorded) = Inr v"
  shows "P v"
  using assms
proof (induction cases arbitrary: recorded)
  case Nil
  then show ?case by (simp split: option.splits)
next
  case (Cons c cs)
  show ?case
  proof (cases "drive r (c dt inp opts)")
    case (Inl e)
    with Cons.prems(2) have "drive r (runCases cs dt inp opts (recorded @ [e])) = Inr v"
      by (simp add: drive_tryCase split: if_splits)
    with Cons.IH[of "recorded @ [e]"] Cons.prems(1) show ?thesis by simp
  next
    case (Inr w)
    with Cons.prems(2) have "w = v" by (simp add: drive_tryCase)
    with Inr Cons.prems(1) show ?thesis by simp
  qed
qed

section \<open>Lemmas on decimals\<close>

lemma big_lt_value: "big_lt a b \<longleftrightarrow> bigValue a < bigValue b"
proof -
  have "bigValue a < bigValue b \<longleftrightarrow>
        (of_int (unscaled a) * 10 ^ scale b :: rat) < of_int (unscaled b) * 10 ^ scale a"
    by (simp add: bigValue_def field_simps)
  also have "\<dots> \<longleftrightarrow> (of_int (unscaled a * 10 ^ scale b) :: rat) < of_int (unscaled b * 10 ^ scale a)"
    by simp
  also have "\<dots> \<longleftrightarrow> unscaled a * 10 ^ scale b < unscaled b * 10 ^ scale a"
    by (simp only: of_int_less_iff)
  finally show ?thesis by (simp add: big_lt_def)
qed

lemma fractionalDigits_dvd: "fractionalDigits m k \<le> p \<Longrightarrow> 10 ^ k dvd m * 10 ^ p"
proof (induction m k rule: fractionalDigits.induct)
  case (1 m)
  then show ?case by simp
next
  case (2 m k)
  show ?case
  proof (cases "m mod 10 = 0")
    case True
    with 2 have "10 ^ k dvd (m div 10) * 10 ^ p" by simp
    then have "10 * 10 ^ k dvd 10 * ((m div 10) * 10 ^ p)" by (rule mult_dvd_mono[OF dvd_refl])
    moreover from True have "10 * (m div 10) = m" by presburger
    ultimately show ?thesis by (simp add: mult.assoc[symmetric])
  next
    case False
    with 2 have "Suc k \<le> p" by simp
    then have "(10::int) ^ Suc k dvd 10 ^ p" by (rule le_imp_power_dvd)
    then show ?thesis by (rule dvd_mult)
  qed
qed

lemma upper_bound_open:
  assumes "fractionalDigits m k \<le> p"
  shows "\<not> (B - 1) * 10 ^ k < m * 10 ^ p \<longleftrightarrow> m * 10 ^ p < B * (10::int) ^ k"
proof -
  from fractionalDigits_dvd[OF assms] obtain n where n: "m * 10 ^ p = 10 ^ k * n"
    by (auto simp: dvd_def)
  have pos: "(0::int) < 10 ^ k" by simp
  have "(B - 1) * 10 ^ k < 10 ^ k * n \<longleftrightarrow> B - 1 < n"
    using pos by (simp add: mult.commute)
  moreover have "10 ^ k * n < B * 10 ^ k \<longleftrightarrow> n < B"
    using pos by (simp add: mult.commute)
  ultimately show ?thesis using n by auto
qed

lemma quotient_less:
  "(of_int a / 10 ^ k :: rat) < of_int c / 10 ^ p \<longleftrightarrow> a * 10 ^ p < c * 10 ^ k"
proof -
  have "(of_int a / 10 ^ k :: rat) < of_int c / 10 ^ p \<longleftrightarrow>
        (of_int (a * 10 ^ p) :: rat) < of_int (c * 10 ^ k)"
    by (simp add: field_simps)
  then show ?thesis by (simp only: of_int_less_iff)
qed

lemma range_as_in_spec:
  assumes "countDecimalPlaces b \<le> places dt"
  shows "(\<not> big_gt b (maxValue dt) \<and> \<not> big_lt b (minValue dt)) \<longleftrightarrow> inSpecRange dt b"
proof -
  obtain m k where b: "b = Big m k" by (cases b)
  from assms b have fd: "fractionalDigits m k \<le> places dt"
    by (simp add: countDecimalPlaces_def)
  have val: "bigValue (Big m k) = of_int m / 10 ^ k" by (simp add: bigValue_def)
  show ?thesis
  proof (cases "typeClass dt")
    case Ufixed
    have "\<not> big_gt b (maxValue dt) \<longleftrightarrow> m * 10 ^ places dt < 2 ^ bits dt * 10 ^ k"
      using upper_bound_open[OF fd, of "2 ^ bits dt"]
      by (simp add: big_gt_def big_lt_def maxValue_def Ufixed b)
    also have "\<dots> \<longleftrightarrow> bigValue b < 2 ^ bits dt / 10 ^ places dt"
      using quotient_less[of m k "2 ^ bits dt" "places dt"] by (simp add: val b)
    finally have up: "\<not> big_gt b (maxValue dt) \<longleftrightarrow> bigValue b < 2 ^ bits dt / 10 ^ places dt" .
    have lo: "\<not> big_lt b (minValue dt) \<longleftrightarrow> 0 \<le> bigValue b"
    proof -
      have "(of_int m / 10 ^ k :: rat) < 0 \<longleftrightarrow> m < 0"
        using quotient_less[of m k 0 0] by simp
      then have "0 \<le> (of_int m / 10 ^ k :: rat) \<longleftrightarrow> 0 \<le> m"
        by (simp only: not_less[symmetric])
      then show ?thesis
        by (simp add: big_lt_def minValue_def Ufixed b val not_less)
    qed
    from up lo show ?thesis by (auto simp: inSpecRange_def Ufixed)
  next
    case Fixed
    have "\<not> big_gt b (maxValue dt) \<longleftrightarrow> m * 10 ^ places dt < 2 ^ (bits dt - 1) * 10 ^ k"
      using upper_bound_open[OF fd, of "2 ^ (bits dt - 1)"]
      by (simp add: big_gt_def big_lt_def maxValue_def Fixed b)
    also have "\<dots> \<longleftrightarrow> bigValue b < 2 ^ (bits dt - 1) / 10 ^ places dt"
      using quotient_less[of m k "2 ^ (bits dt - 1)" "places dt"] by (simp add: val b)
    finally have up:
      "\<not> big_gt b (maxValue dt) \<longleftrightarrow> bigValue b < 2 ^ (bits dt - 1) / 10 ^ places dt" .
    have "big_lt b (minValue dt) \<longleftrightarrow> m * 10 ^ places dt < (- (2 ^ (bits dt - 1))) * 10 ^ k"
      by (simp add: big_lt_def minValue_def Fixed b)
    also have "\<dots> \<longleftrightarrow> bigValue b < - (2 ^ (bits dt - 1)) / 10 ^ places dt"
      using quotient_less[of m k "- (2 ^ (bits dt - 1))" "places dt"] by (simp add: val b)
    finally have lo:
      "\<not> big_lt b (minValue dt) \<longleftrightarrow> - (2 ^ (bits dt - 1)) / 10 ^ places dt \<le> bigValue b"
      by (simp add: not_less)
    from up lo show ?thesis by (auto simp: inSpecRange_def Fixed)
  qed
qed

lemma validate_Inr: "validate dt b i n = Inr u \<longleftrightarrow> countDecimalPlaces b \<le> places dt \<and> withinRange dt b"
  by (auto simp: validate_def withinRange_def)

lemma drive_returnDecimal:
  "drive r (returnDecimal dt b x) =
     (case x of Inl e \<Rightarrow> Inl e | Inr u \<Rightarrow> Inr \<lparr>type = dt, kind = KValue, payload = b\<rparr>)"
  by (simp add: returnDecimal_def split: sum.split)

lemma returnDecimal_good:
  "drive r (returnDecimal dt b (validate dt b i n)) = Inr v \<Longrightarrow> goodDecimal dt v"
  by (auto simp: drive_returnDecimal goodDecimal_def validate_Inr split: sum.splits)

lemma decimalFromBig_good: "drive r (decimalFromBig dt inp opts) = Inr v \<Longrightarrow> goodDecimal dt v"
  by (auto simp: decimalFromBig_def returnDecimal_good split: Input.splits)

lemma decimalFromBN_good: "drive r (decimalFromBN dt inp opts) = Inr v \<Longrightarrow> goodDecimal dt v"
  by (auto simp: decimalFromBN_def returnDecimal_good split: Input.splits)

lemma decimalFromBigint_good: "drive r (decimalFromBigint dt inp opts) = Inr v \<Longrightarrow> goodDecimal dt v"
  by (auto simp: decimalFromBigint_def returnDecimal_good split: Input.splits)

lemma decimalFromString_good:
  "drive r (decimalFromString newBig dt inp opts) = Inr v \<Longrightarrow> goodDecimal dt v"
  by (auto simp: decimalFromString_def Let_def returnDecimal_good split: Input.splits option.splits)

lemma decimalFromNumber_good: "drive r (decimalFromNumber dt inp opts) = Inr v \<Longrightarrow> goodDecimal dt v"
  by (auto simp: decimalFromNumber_def returnDecimal_good split: Input.splits number.splits if_splits)

lemma decimalFromBoxedString_good:
  "drive r (decimalFromBoxedString newBig dt inp opts) = Inr v \<Longrightarrow> goodDecimal dt v"
  by (auto simp: decimalFromBoxedString_def decimalFromString_good split: Input.splits)

lemma decimalFromBoxedNumber_good:
  "drive r (decimalFromBoxedNumber dt inp opts) = Inr v \<Longrightarrow> goodDecimal dt v"
  by (auto simp: decimalFromBoxedNumber_def decimalFromNumber_good split: Input.splits)

lemma decimalFromDecimalValue_good:
  "drive r (decimalFromDecimalValue dt inp opts) = Inr v \<Longrightarrow> goodDecimal dt v"
  by (auto simp: decimalFromDecimalValue_def returnDecimal_good
      split: Input.splits if_splits WrappedResult.splits Type.splits)

lemma decimalFromIntegerValue_good:
  "drive r (decimalFromIntegerValue dt inp opts) = Inr v \<Longrightarrow> goodDecimal dt v"
  by (auto simp: decimalFromIntegerValue_def returnDecimal_good
      split: Input.splits if_splits WrappedResult.splits Type.splits)

lemma decimalFromEnumValue_good:
  "drive r (decimalFromEnumValue dt inp opts) = Inr v \<Longrightarrow> goodDecimal dt v"
  by (auto simp: decimalFromEnumValue_def returnDecimal_good
      split: Input.splits if_splits WrappedResult.splits Type.splits)

lemma decimalFromEnumError_good:
  "drive r (decimalFromEnumError dt inp opts) = Inr v \<Longrightarrow> goodDecimal dt v"
  by (auto simp: decimalFromEnumError_def returnDecimal_good
      split: Input.splits if_splits WrappedResult.splits Type.splits ErrorInfo.splits)

lemma decimalFromOther_good:
  "drive r (decimalFromOther dt inp opts) = Inr v \<Longrightarrow> goodDecimal dt v"
  by (auto simp: decimalFromOther_def Let_def returnDecimal_good
      split: WrapResponse.splits option.splits)

lemma decimalCasesBasic_good:
  "c \<in> set (decimalCasesBasic newBig) \<Longrightarrow> drive r (c dt inp opts) = Inr v \<Longrightarrow> goodDecimal dt v"
  by (auto simp: decimalCasesBasic_def
      dest: decimalFromBig_good decimalFromBN_good decimalFromBigint_good decimalFromString_good
        decimalFromNumber_good decimalFromBoxedString_good decimalFromBoxedNumber_good
        decimalFromDecimalValue_good decimalFromIntegerValue_good decimalFromEnumValue_good
        decimalFromEnumError_good decimalFromOther_good)

lemma decimalFromTypeValueInput_good:
  "drive r (decimalFromTypeValueInput newBig dt inp opts) = Inr v \<Longrightarrow> goodDecimal dt v"
proof -
  assume a: "drive r (decimalFromTypeValueInput newBig dt inp opts) = Inr v"
  then obtain x where
    "drive r (wrapWithCases dt x (opts\<lparr>loose := True\<rparr>) (decimalCasesBasic newBig)) = Inr v"
    by (auto simp: decimalFromTypeValueInput_def Let_def
        split: Input.splits if_splits option.splits prod.splits)
  then show ?thesis
    unfolding wrapWithCases_def
    using drive_runCases_returns[of "decimalCasesBasic newBig" r dt x "opts\<lparr>loose := True\<rparr>"
        "goodDecimal dt" "[]" v]
      decimalCasesBasic_good by blast
qed

lemma decimalCases_good:
  "c \<in> set (decimalCases newBig) \<Longrightarrow> drive r (c dt inp opts) = Inr v \<Longrightarrow> goodDecimal dt v"
  using decimalCasesBasic_good decimalFromTypeValueInput_good by (auto simp: decimalCases_def)

lemma decimal_run_good:
  "drive r (wrapWithCases dt inp opts (decimalCases newBig)) = Inr v \<Longrightarrow> goodDecimal dt v"
  unfolding wrapWithCases_def
  using drive_runCases_returns[of "decimalCases newBig" r dt inp opts "goodDecimal dt" "[]" v]
    decimalCases_good
  by blast

section \<open>Lemmas on bytes\<close>

lemma concat_replicate_zeros: "concat (replicate n ''00'') = replicate (2 * n) CHR ''0''"
  by (induction n) simp_all

lemma padEnd_zeros: "padEnd s n ''00'' = s @ replicate (n - length s) CHR ''0''"
  by (simp add: padEnd_def concat_replicate_zeros)

lemma overlong_iff: "of_nat len < byteLength h \<longleftrightarrow> 2 * len + 2 < length h"
proof -
  have "of_nat len < byteLength h \<longleftrightarrow> (of_nat (2 * len + 2) :: rat) < of_nat (length h)"
    by (simp add: byteLength_def field_simps)
  then show ?thesis by (simp only: of_nat_less_iff)
qed

lemma validateAndPad_static:
  "validateAndPad (BytesStatic len) h i n =
     (if of_nat len < byteLength h
      then Inl (TypeMismatchError (BytesStatic len) i n 5 (overlongMessage len (byteLength h)))
      else Inr (padded len h))"
  by (simp add: validateAndPad_def isStatic_def Let_def byteLength_def padded_def padEnd_zeros
      toLowerCase_def mult.commute)

lemma length_padded: "\<not> of_nat len < byteLength h \<Longrightarrow> length (padded len h) = 2 * len + 2"
  by (simp add: overlong_iff padded_def toLowerCase_def)

lemma validateAndPad_dynamic: "validateAndPad BytesDynamic h i n = Inr (toLowerCase h)"
  by (simp add: validateAndPad_def isStatic_def)

lemma validateAndPad_Inr_length:
  "validateAndPad dt h i n = Inr p \<Longrightarrow> isStatic dt \<Longrightarrow> length p = 2 * bytesLength dt + 2"
  by (cases dt) (auto simp: validateAndPad_static length_padded isStatic_def split: if_splits)

lemma drive_returnBytes:
  "drive r (returnBytes dt x) = (case x of Inl e \<Rightarrow> Inl e | Inr h \<Rightarrow> Inr \<lparr>type = dt, kind = KValue, payload = h\<rparr>)"
  by (simp add: returnBytes_def split: sum.split)

lemma returnBytes_good:
  "drive r (returnBytes dt (validateAndPad dt h i n)) = Inr v \<Longrightarrow> goodBytes dt v"
  by (auto simp: drive_returnBytes goodBytes_def validateAndPad_Inr_length split: sum.splits)

lemma returnBytes_static:
  "returnBytes (BytesStatic len) (validateAndPad (BytesStatic len) h i (name opts)) =
     paddedOrOverlong len h i opts"
  by (simp add: validateAndPad_static returnBytes_def paddedOrOverlong_def)

lemma padded_zero_bytes:
  assumes "even (length h)" and "2 \<le> length h"
  shows "padded len h = toLowerCase h @ concat (replicate (len - (length h - 2) div 2) ''00'')"
proof -
  from assms obtain k where k: "length h = 2 * k + 2"
    by (metis add.commute dvd_def le_add_diff_inverse dvd_diff_nat even_numeral)
  then have "2 * len + 2 - length h = 2 * (len - (length h - 2) div 2)" by simp
  then show ?thesis by (simp add: padded_def concat_replicate_zeros)
qed

lemma validateAndPad_canonical:
  "canonicalBytes t h \<Longrightarrow> validateAndPad t h i n = Inr h"
proof (cases t)
  case (BytesStatic len)
  assume c: "canonicalBytes t h"
  with BytesStatic have l: "length h = 2 * len + 2" and lo: "toLowerCase h = h"
    by (simp_all add: canonicalBytes_def isStatic_def)
  from l have "\<not> of_nat len < byteLength h" by (simp add: overlong_iff)
  with l lo show ?thesis by (simp add: BytesStatic validateAndPad_static padded_def)
next
  case BytesDynamic
  assume "canonicalBytes t h"
  with BytesDynamic show ?thesis by (simp add: validateAndPad_dynamic canonicalBytes_def)
qed

lemma bytesFromHexString_good: "drive r (bytesFromHexString dt inp opts) = Inr v \<Longrightarrow> goodBytes dt v"
  by (auto simp: bytesFromHexString_def returnBytes_good split: Input.splits if_splits)

lemma bytesFromBoxedString_good: "drive r (bytesFromBoxedString dt inp opts) = Inr v \<Longrightarrow> goodBytes dt v"
  by (auto simp: bytesFromBoxedString_def bytesFromHexString_good split: Input.splits)

lemma bytesFromUint8ArrayLike_good:
  "drive r (bytesFromUint8ArrayLike dt inp opts) = Inr v \<Longrightarrow> goodBytes dt v"
  by (auto simp: bytesFromUint8ArrayLike_def returnBytes_good split: Input.splits sum.splits)

lemma bytesFromEncodingTextInput_good:
  "drive r (bytesFromEncodingTextInput dt inp opts) = Inr v \<Longrightarrow> goodBytes dt v"
  by (auto simp: bytesFromEncodingTextInput_def returnBytes_good
      split: Input.splits if_splits option.splits)

lemma bytesFromBytesValue_good:
  "drive r (bytesFromBytesValue dt inp opts) = Inr v \<Longrightarrow> goodBytes dt v"
  by (auto simp: bytesFromBytesValue_def returnBytes_good
      split: Input.splits if_splits WrappedResult.splits Type.splits)

lemma bytesCasesBasic_good:
  "c \<in> set bytesCasesBasic \<Longrightarrow> drive r (c dt inp opts) = Inr v \<Longrightarrow> goodBytes dt v"
  by (auto simp: bytesCasesBasic_def bytesFailureCase_def
      dest: bytesFromHexString_good bytesFromBoxedString_good bytesFromUint8ArrayLike_good
        bytesFromEncodingTextInput_good bytesFromBytesValue_good)

lemma bytesFromTypeValueInput_good:
  "drive r (bytesFromTypeValueInput dt inp opts) = Inr v \<Longrightarrow> goodBytes dt v"
proof -
  assume a: "drive r (bytesFromTypeValueInput dt inp opts) = Inr v"
  then obtain ty x where "drive r (wrapWithCases dt x (opts\<lparr>loose := True\<rparr>) bytesCasesBasic) = Inr v"
    by (auto simp: bytesFromTypeValueInput_def Let_def split: Input.splits if_splits)
  then show ?thesis
    unfolding wrapWithCases_def
    using drive_runCases_returns[of bytesCasesBasic r dt x "opts\<lparr>loose := True\<rparr>" "goodBytes dt" "[]" v]
      bytesCasesBasic_good by blast
qed

lemma bytesCases_good:
  "c \<in> set bytesCases \<Longrightarrow> drive r (c dt inp opts) = Inr v \<Longrightarrow> goodBytes dt v"
  using bytesCasesBasic_good bytesFromTypeValueInput_good by (auto simp: bytesCases_def)

lemma bytes_run_good:
  "drive r (wrapWithCases dt inp opts bytesCases) = Inr v \<Longrightarrow> goodBytes dt v"
  unfolding wrapWithCases_def
  using drive_runCases_returns[of bytesCases r dt inp opts "goodBytes dt" "[]" v] bytesCases_good
  by blast

section \<open>The static length of bytes\<close>

text \<open>
  C2. On a static type of length \<open>len\<close>, every bytes case that returns a value returns a
  payload of 2 + 2 * len characters. Each accepting case, on an input it recognises (a byte
  string, a boxed byte string, a valid byte array, a text in utf8, a wrapped bytes value that
  passes the type check), ends with the lowercased hex string padded on the right with zeros,
  or, when the bytes are more than \<open>len\<close>, with the overlong Mismatch of specificity 5. For a
  hex string of even length the padding is whole zero bytes.
\<close>

theorem C2_static_padding:
  "(\<forall>c \<in> set bytesCases.
      drive r (c (BytesStatic len) inp opts) = Inr v \<longrightarrow> length (payload v) = 2 * len + 2) \<and>
   (isByteString s \<longrightarrow>
      bytesFromHexString (BytesStatic len) (IString s) opts = paddedOrOverlong len s (IString s) opts) \<and>
   (isByteString s \<longrightarrow>
      bytesFromBoxedString (BytesStatic len) (IBoxedString s) opts =
        paddedOrOverlong len s (IString s) opts) \<and>
   (validateUint8ArrayLike a (BytesStatic len) (name opts) = Inr () \<longrightarrow>
      bytesFromUint8ArrayLike (BytesStatic len) (IUint8ArrayLike a) opts =
        paddedOrOverlong len (toHexString (newUint8Array a)) (IUint8ArrayLike a) opts) \<and>
   (stringToBytes units = Some bs \<longrightarrow>
      bytesFromEncodingTextInput (BytesStatic len) (IEncodingText ''utf8'' units) opts =
        paddedOrOverlong len (toHexString bs) (IEncodingText ''utf8'' units) opts) \<and>
   (loose opts \<or> t = BytesStatic len \<longrightarrow>
      bytesFromBytesValue (BytesStatic len) (IWrapped (WBytesValue t h)) opts =
        paddedOrOverlong len h (IWrapped (WBytesValue t h)) opts) \<and>
   (\<not> of_nat len < byteLength h \<longrightarrow> length (padded len h) = 2 * len + 2) \<and>
   (even (length h) \<and> 2 \<le> length h \<longrightarrow>
      padded len h = toLowerCase h @ concat (replicate (len - (length h - 2) div 2) ''00''))"
proof -
  have 1: "\<forall>c \<in> set bytesCases.
      drive r (c (BytesStatic len) inp opts) = Inr v \<longrightarrow> length (payload v) = 2 * len + 2"
    using bytesCases_good[of _ r "BytesStatic len" inp opts v]
    by (auto simp: goodBytes_def isStatic_def)
  have 2: "isByteString s \<longrightarrow>
      bytesFromHexString (BytesStatic len) (IString s) opts = paddedOrOverlong len s (IString s) opts"
    by (simp add: bytesFromHexString_def returnBytes_static)
  have 3: "isByteString s \<longrightarrow>
      bytesFromBoxedString (BytesStatic len) (IBoxedString s) opts =
        paddedOrOverlong len s (IString s) opts"
    by (simp add: bytesFromBoxedString_def bytesFromHexString_def returnBytes_static)
  have 4: "validateUint8ArrayLike a (BytesStatic len) (name opts) = Inr () \<longrightarrow>
      bytesFromUint8ArrayLike (BytesStatic len) (IUint8ArrayLike a) opts =
        paddedOrOverlong len (toHexString (newUint8Array a)) (IUint8ArrayLike a) opts"
    by (simp add: bytesFromUint8ArrayLike_def returnBytes_static)
  have 5: "stringToBytes units = Some bs \<longrightarrow>
      bytesFromEncodingTextInput (BytesStatic len) (IEncodingText ''utf8'' units) opts =
        paddedOrOverlong len (toHexString bs) (IEncodingText ''utf8'' units) opts"
    by (simp add: bytesFromEncodingTextInput_def returnBytes_static)
  have 6: "loose opts \<or> t = BytesStatic len \<longrightarrow>
      bytesFromBytesValue (BytesStatic len) (IWrapped (WBytesValue t h)) opts =
        paddedOrOverlong len h (IWrapped (WBytesValue t h)) opts"
    by (auto simp: bytesFromBytesValue_def returnBytes_static isStatic_def isDynamic_def)
  from 1 2 3 4 5 6 length_padded[of len h] padded_zero_bytes[of h len] show ?thesis by blast
qed

text \<open>
  The byte array 1, 2 against \<open>bytes4\<close>; the hex string of three bytes against \<open>bytes2\<close>; a
  wrapped \<open>bytes2\<close> value against \<open>bytes4\<close> with \<open>loose\<close>.
\<close>

theorem C2_static_padding_witness:
  "validateUint8ArrayLike (ArrayLike (Finite (Big 2 0)) [Num (Finite (Big 1 0)), Num (Finite (Big 2 0))])
      bytes4 (name strict) = Inr () \<and>
   drive (\<lambda>_. OtherWrapResponse)
     (bytesFromUint8ArrayLike bytes4
        (IUint8ArrayLike (ArrayLike (Finite (Big 2 0)) [Num (Finite (Big 1 0)), Num (Finite (Big 2 0))]))
        strict) =
     Inr \<lparr>type = bytes4, kind = KValue, payload = ''0x01020000''\<rparr> \<and>
   isByteString ''0x010203'' \<and>
   drive (\<lambda>_. OtherWrapResponse) (bytesFromHexString bytes2 (IString ''0x010203'') strict) =
     Inl (TypeMismatchError bytes2 (IString ''0x010203'') ''arg'' 5 (overlongMessage 2 3)) \<and>
   drive (\<lambda>_. OtherWrapResponse)
     (bytesFromBytesValue bytes4 (IWrapped (WBytesValue bytes2 ''0xABcd'')) lenient) =
     Inr \<lparr>type = bytes4, kind = KValue, payload = ''0xabcd0000''\<rparr> \<and>
   stringToBytes [0x61] = Some [0x61] \<and>
   bytesFromEncodingTextInput \<in> set bytesCases \<and>
   drive (\<lambda>_. OtherWrapResponse)
     (bytesFromEncodingTextInput bytes2 (IEncodingText ''utf8'' [0x61]) strict) =
     Inr \<lparr>type = bytes2, kind = KValue, payload = ''0x6100''\<rparr> \<and>
   length (payload \<lparr>type = bytes2, kind = KValue, payload = ''0x6100''\<rparr>) = 2 * 2 + 2 \<and>
   even (length ''0xAB'') \<and> 2 \<le> length ''0xAB'' \<and>
   padded 4 ''0xAB'' = toLowerCase ''0xAB'' @ concat (replicate (4 - (length ''0xAB'' - 2) div 2) ''00'')"
  (is "?h1 \<and> ?c1 \<and> ?h2 \<and> ?c2 \<and> ?c3 \<and> ?h4 \<and> ?m \<and> ?c4 \<and> ?c5 \<and> ?h6 \<and> ?h7 \<and> ?c6")
proof -
  have h1: ?h1 by code_simp
  have h2: ?h2 by code_simp
  have h3: "loose lenient \<or> bytes2 = BytesStatic 4" by code_simp
  have h4: ?h4 by code_simp
  have h6: ?h6 by code_simp
  have h7: ?h7 by code_simp
  have m: ?m by (simp add: bytesCases_def bytesCasesBasic_def)
  have e1: "drive (\<lambda>_. OtherWrapResponse)
      (paddedOrOverlong 4 (toHexString (newUint8Array
          (ArrayLike (Finite (Big 2 0)) [Num (Finite (Big 1 0)), Num (Finite (Big 2 0))])))
        (IUint8ArrayLike (ArrayLike (Finite (Big 2 0)) [Num (Finite (Big 1 0)), Num (Finite (Big 2 0))]))
        strict) = Inr \<lparr>type = bytes4, kind = KValue, payload = ''0x01020000''\<rparr>"
    by code_simp
  have e2: "drive (\<lambda>_. OtherWrapResponse) (paddedOrOverlong 2 ''0x010203'' (IString ''0x010203'') strict) =
      Inl (TypeMismatchError bytes2 (IString ''0x010203'') ''arg'' 5 (overlongMessage 2 3))"
    by code_simp
  have e3: "drive (\<lambda>_. OtherWrapResponse)
      (paddedOrOverlong 4 ''0xABcd'' (IWrapped (WBytesValue bytes2 ''0xABcd'')) lenient) =
      Inr \<lparr>type = bytes4, kind = KValue, payload = ''0xabcd0000''\<rparr>"
    by code_simp
  have e4: "drive (\<lambda>_. OtherWrapResponse)
      (paddedOrOverlong 2 (toHexString [0x61]) (IEncodingText ''utf8'' [0x61]) strict) =
      Inr \<lparr>type = bytes2, kind = KValue, payload = ''0x6100''\<rparr>"
    by code_simp
  from h1 C2_static_padding[where len = 4 and opts = strict
      and a = "ArrayLike (Finite (Big 2 0)) [Num (Finite (Big 1 0)), Num (Finite (Big 2 0))]"] e1
  have c1: ?c1 by (simp add: bytes4_def)
  from h2 C2_static_padding[where len = 2 and opts = strict and s = "''0x010203''"] e2
  have c2: ?c2 by (simp add: bytes2_def)
  from h3 C2_static_padding[where len = 4 and opts = lenient and t = bytes2 and h = "''0xABcd''"] e3
  have c3: ?c3 by (simp add: bytes4_def)
  from h4 C2_static_padding[where len = 2 and opts = strict and units = "[0x61]" and bs = "[0x61]"] e4
  have c4: ?c4 by (simp add: bytes2_def)
  from m c4 C2_static_padding[where len = 2 and opts = strict and r = "\<lambda>_. OtherWrapResponse"
      and inp = "IEncodingText ''utf8'' [0x61]"
      and v = "\<lparr>type = bytes2, kind = KValue, payload = ''0x6100''\<rparr>"]
  have c5: ?c5 unfolding bytes2_def by blast
  from h6 h7 C2_static_padding[where len = 4 and h = "''0xAB''"]
  have c6: ?c6 by blast
  from h1 c1 h2 c2 c3 h4 m c4 c5 h6 h7 c6 show ?thesis by blast
qed

section \<open>The validator of decimals\<close>

text \<open>
  C3. \<^verbatim>\<open>validate\<close> fails with the too-precise Mismatch of specificity 5, which
  carries the places of the type and of the value, when the value has more fractional
  digits than the type has places; it fails with a Mismatch of specificity 5 when the
  value is outside \<open>minValue\<close> to \<open>maxValue\<close>; otherwise it accepts. On values that pass
  the check of the places, that range is the range of the specification. No decimal case
  returns a value the validator rejects.
\<close>

theorem C3_validator:
  "(places dt < countDecimalPlaces b \<longrightarrow>
      validate dt b inp nm =
        Inl (TypeMismatchError dt inp nm 5 (tooPreciseMessage (places dt) (countDecimalPlaces b)))) \<and>
   (\<not> withinRange dt b \<longrightarrow>
      (\<exists>reason. validate dt b inp nm = Inl (TypeMismatchError dt inp nm 5 reason))) \<and>
   (countDecimalPlaces b \<le> places dt \<and> \<not> withinRange dt b \<longrightarrow>
      validate dt b inp nm = Inl (TypeMismatchError dt inp nm 5 outOfRangeMessage)) \<and>
   (countDecimalPlaces b \<le> places dt \<and> withinRange dt b \<longrightarrow> validate dt b inp nm = Inr ()) \<and>
   (countDecimalPlaces b \<le> places dt \<longrightarrow> withinRange dt b = inSpecRange dt b) \<and>
   (\<forall>c \<in> set (decimalCases newBig).
      drive r (c dt inp opts) = Inr v \<longrightarrow>
        countDecimalPlaces (payload v) \<le> places dt \<and> withinRange dt (payload v))"
proof -
  have a: "(places dt < countDecimalPlaces b \<longrightarrow>
      validate dt b inp nm =
        Inl (TypeMismatchError dt inp nm 5 (tooPreciseMessage (places dt) (countDecimalPlaces b)))) \<and>
   (\<not> withinRange dt b \<longrightarrow>
      (\<exists>reason. validate dt b inp nm = Inl (TypeMismatchError dt inp nm 5 reason))) \<and>
   (countDecimalPlaces b \<le> places dt \<and> \<not> withinRange dt b \<longrightarrow>
      validate dt b inp nm = Inl (TypeMismatchError dt inp nm 5 outOfRangeMessage)) \<and>
   (countDecimalPlaces b \<le> places dt \<and> withinRange dt b \<longrightarrow> validate dt b inp nm = Inr ())"
    by (auto simp: validate_def withinRange_def)
  have b: "countDecimalPlaces b \<le> places dt \<longrightarrow> withinRange dt b = inSpecRange dt b"
    using range_as_in_spec[of b dt] by (simp add: withinRange_def)
  have c: "\<forall>c \<in> set (decimalCases newBig).
      drive r (c dt inp opts) = Inr v \<longrightarrow>
        countDecimalPlaces (payload v) \<le> places dt \<and> withinRange dt (payload v)"
    using decimalCases_good[of _ newBig r dt inp opts v] by (auto simp: goodDecimal_def)
  from a b c show ?thesis by blast
qed

text \<open>
  Against \<open>ufixed8x0\<close>: 1.5 is too precise, 256 is out of range, 255 is accepted.
\<close>

theorem C3_validator_witness:
  "places ufixed8x0 < countDecimalPlaces (Big 15 1) \<and>
   validate ufixed8x0 (Big 15 1) (IString ''1.5'') ''arg'' =
     Inl (TypeMismatchError ufixed8x0 (IString ''1.5'') ''arg'' 5 (tooPreciseMessage 0 1)) \<and>
   countDecimalPlaces (Big 256 0) \<le> places ufixed8x0 \<and> \<not> withinRange ufixed8x0 (Big 256 0) \<and>
   validate ufixed8x0 (Big 256 0) (IString ''256'') ''arg'' =
     Inl (TypeMismatchError ufixed8x0 (IString ''256'') ''arg'' 5 outOfRangeMessage) \<and>
   countDecimalPlaces (Big 255 0) \<le> places ufixed8x0 \<and> withinRange ufixed8x0 (Big 255 0) \<and>
   validate ufixed8x0 (Big 255 0) (IString ''255'') ''arg'' = Inr () \<and>
   inSpecRange ufixed8x0 (Big 255 0) \<and>
   decimalFromString plainDecimal \<in> set (decimalCases plainDecimal) \<and>
   drive (\<lambda>_. OtherWrapResponse)
     (decimalFromString plainDecimal ufixed128x18 (IString ''1.23'') strict) =
     Inr \<lparr>type = ufixed128x18, kind = KValue, payload = Big 123 2\<rparr> \<and>
   countDecimalPlaces (payload \<lparr>type = ufixed128x18, kind = KValue, payload = Big 123 2\<rparr>)
     \<le> places ufixed128x18 \<and>
   withinRange ufixed128x18 (payload \<lparr>type = ufixed128x18, kind = KValue, payload = Big 123 2\<rparr>)"
  (is "?h1 \<and> ?c1 \<and> ?h2 \<and> ?h3 \<and> ?c2 \<and> ?h4 \<and> ?h5 \<and> ?c3 \<and> ?c4 \<and> ?m \<and> ?d \<and> ?c5 \<and> ?c6")
proof -
  have h1: ?h1 by code_simp
  have h2: ?h2 by code_simp
  have h3: ?h3 by code_simp
  have h4: ?h4 by code_simp
  have h5: ?h5 by code_simp
  have m: ?m by (simp add: decimalCases_def decimalCasesBasic_def)
  have d: ?d by code_simp
  have p: "places ufixed8x0 = 0" by code_simp
  have q: "countDecimalPlaces (Big 15 1) = 1" by code_simp
  from C3_validator[where dt = ufixed8x0 and b = "Big 15 1" and inp = "IString ''1.5''"
      and nm = "''arg''", THEN conjunct1, rule_format, OF h1]
  have c1: ?c1 by (simp only: p q)
  from h2 h3 C3_validator[where dt = ufixed8x0 and b = "Big 256 0" and inp = "IString ''256''"
      and nm = "''arg''"]
  have c2: ?c2 by blast
  from h4 h5 C3_validator[where dt = ufixed8x0 and b = "Big 255 0" and inp = "IString ''255''"
      and nm = "''arg''"]
  have c3: ?c3 and c4: ?c4 by blast+
  from m d C3_validator[where dt = ufixed128x18 and inp = "IString ''1.23''" and opts = strict
      and newBig = plainDecimal and r = "\<lambda>_. OtherWrapResponse"
      and v = "\<lparr>type = ufixed128x18, kind = KValue, payload = Big 123 2\<rparr>"]
  have c5: ?c5 and c6: ?c6 by blast+
  from h1 c1 h2 h3 c2 h4 h5 c3 c4 m d c5 c6 show ?thesis by blast
qed

section \<open>Wrapped values as input\<close>

lemma bytes_run_wrapped:
  "drive r (wrapWithCases bt (IWrapped w) opts bytesCases) =
     (case drive r (bytesFromBytesValue bt (IWrapped w) opts) of
        Inr v \<Rightarrow> Inr v
      | Inl e \<Rightarrow>
          drive r (runCases [bytesFromEncodingTextInput, bytesFailureCase] bt (IWrapped w) opts
            [TypeMismatchError bt (IWrapped w) (name opts) 1 (Literal ''Input was not a type/value pair''),
             TypeMismatchError bt (IWrapped w) (name opts) 1 (Literal ''Input was not a string''),
             TypeMismatchError bt (IWrapped w) (name opts) 1 (Literal ''Input was not a boxed string''),
             TypeMismatchError bt (IWrapped w) (name opts) 1 (Literal ''Input was not a Uint8Array-like''),
             e]))"
proof -
  have m: "\<And>e. drive r (bytesFromBytesValue bt (IWrapped w) opts) = Inl e \<Longrightarrow> isMismatch e"
    by (auto simp: bytesFromBytesValue_def isMismatch_def drive_returnBytes validateAndPad_def Let_def
        split: WrappedResult.splits Type.splits if_splits sum.splits)
  show ?thesis
    unfolding wrapWithCases_def bytesCases_def bytesCasesBasic_def
    by (auto simp: drive_runCases_Cons bytesFromTypeValueInput_def bytesFromHexString_def
        bytesFromBoxedString_def bytesFromUint8ArrayLike_def isMismatch_def
        simp del: runCases.simps dest: m split: sum.splits)
qed

lemma decimal_run_wrapped:
  "drive r (wrapWithCases dt (IWrapped w) opts (decimalCases newBig)) =
     (case drive r (decimalFromDecimalValue dt (IWrapped w) opts) of
        Inr v \<Rightarrow> Inr v
      | Inl e \<Rightarrow>
          drive r (runCases [decimalFromIntegerValue, decimalFromEnumValue, decimalFromEnumError,
              decimalFromOther] dt (IWrapped w) opts
            [TypeMismatchError dt (IWrapped w) (name opts) 1 (Literal ''Input was not a type/value pair''),
             TypeMismatchError dt (IWrapped w) (name opts) 1 (Literal ''Input was not a number''),
             TypeMismatchError dt (IWrapped w) (name opts) 1 (Literal ''Input was not a string''),
             TypeMismatchError dt (IWrapped w) (name opts) 1 (Literal ''Input was not a boxed number''),
             TypeMismatchError dt (IWrapped w) (name opts) 1 (Literal ''Input was not a boxed string''),
             TypeMismatchError dt (IWrapped w) (name opts) 1 (Literal ''Input was not a bigint''),
             TypeMismatchError dt (IWrapped w) (name opts) 1 (Literal ''Input was not a BN''),
             TypeMismatchError dt (IWrapped w) (name opts) 1 (Literal ''Input was not a Big''),
             e]))"
proof -
  have m: "\<And>e. drive r (decimalFromDecimalValue dt (IWrapped w) opts) = Inl e \<Longrightarrow> isMismatch e"
    by (auto simp: decimalFromDecimalValue_def isMismatch_def drive_returnDecimal validate_def
        split: WrappedResult.splits Type.splits if_splits sum.splits)
  show ?thesis
    unfolding wrapWithCases_def decimalCases_def decimalCasesBasic_def
    by (auto simp: drive_runCases_Cons decimalFromTypeValueInput_def decimalFromNumber_def
        decimalFromString_def decimalFromBoxedNumber_def decimalFromBoxedString_def
        decimalFromBigint_def decimalFromBN_def decimalFromBig_def isMismatch_def
        simp del: runCases.simps dest: m split: sum.splits)
qed

text \<open>
  C4. A canonical bytes or decimal value of exactly the target type, not \<open>loose\<close>, is
  returned as it is, by its case and by the run. With \<open>loose\<close>, a wrapped bytes or
  decimal value of any type goes through the validation of the target type again, and
  the run returns the validated payload when that validation accepts it.
\<close>

theorem C4_round_trip:
  "(canonicalBytes bt h \<and> \<not> loose opts \<longrightarrow>
      bytesFromBytesValue bt (IWrapped (WBytesValue bt h)) opts =
        Return \<lparr>type = bt, kind = KValue, payload = h\<rparr> \<and>
      drive r (wrapWithCases bt (IWrapped (WBytesValue bt h)) opts bytesCases) =
        Inr \<lparr>type = bt, kind = KValue, payload = h\<rparr>) \<and>
   (canonicalDecimal dt b \<and> \<not> loose opts \<longrightarrow>
      decimalFromDecimalValue dt (IWrapped (WDecimalValue dt b)) opts =
        Return \<lparr>type = dt, kind = KValue, payload = b\<rparr> \<and>
      drive r (wrapWithCases dt (IWrapped (WDecimalValue dt b)) opts (decimalCases newBig)) =
        Inr \<lparr>type = dt, kind = KValue, payload = b\<rparr>) \<and>
   (loose opts \<longrightarrow>
      bytesFromBytesValue bt (IWrapped (WBytesValue bt' h)) opts =
        returnBytes bt (validateAndPad bt h (IWrapped (WBytesValue bt' h)) (name opts))) \<and>
   (loose opts \<and> validateAndPad bt h (IWrapped (WBytesValue bt' h)) (name opts) = Inr p \<longrightarrow>
      drive r (wrapWithCases bt (IWrapped (WBytesValue bt' h)) opts bytesCases) =
        Inr \<lparr>type = bt, kind = KValue, payload = p\<rparr>) \<and>
   (loose opts \<longrightarrow>
      decimalFromDecimalValue dt (IWrapped (WDecimalValue dt' b)) opts =
        returnDecimal dt b (validate dt b (IWrapped (WDecimalValue dt' b)) (name opts))) \<and>
   (loose opts \<and> validate dt b (IWrapped (WDecimalValue dt' b)) (name opts) = Inr () \<longrightarrow>
      drive r (wrapWithCases dt (IWrapped (WDecimalValue dt' b)) opts (decimalCases newBig)) =
        Inr \<lparr>type = dt, kind = KValue, payload = b\<rparr>)"
proof -
  have b1: "canonicalBytes bt h \<and> \<not> loose opts \<longrightarrow>
      bytesFromBytesValue bt (IWrapped (WBytesValue bt h)) opts =
        Return \<lparr>type = bt, kind = KValue, payload = h\<rparr>"
    by (cases bt) (auto simp: bytesFromBytesValue_def validateAndPad_canonical returnBytes_def
        isStatic_def isDynamic_def)
  have d1: "canonicalDecimal dt b \<and> \<not> loose opts \<longrightarrow>
      decimalFromDecimalValue dt (IWrapped (WDecimalValue dt b)) opts =
        Return \<lparr>type = dt, kind = KValue, payload = b\<rparr>"
    using validate_Inr[of dt b "IWrapped (WDecimalValue dt b)" "name opts" "()"]
    by (auto simp: decimalFromDecimalValue_def canonicalDecimal_def returnDecimal_def)
  have b2: "loose opts \<longrightarrow>
      bytesFromBytesValue bt (IWrapped (WBytesValue bt' h)) opts =
        returnBytes bt (validateAndPad bt h (IWrapped (WBytesValue bt' h)) (name opts))"
    by (simp add: bytesFromBytesValue_def)
  have d2: "loose opts \<longrightarrow>
      decimalFromDecimalValue dt (IWrapped (WDecimalValue dt' b)) opts =
        returnDecimal dt b (validate dt b (IWrapped (WDecimalValue dt' b)) (name opts))"
    by (simp add: decimalFromDecimalValue_def)
  from b1 have b1r: "canonicalBytes bt h \<and> \<not> loose opts \<longrightarrow>
      drive r (wrapWithCases bt (IWrapped (WBytesValue bt h)) opts bytesCases) =
        Inr \<lparr>type = bt, kind = KValue, payload = h\<rparr>"
    by (simp add: bytes_run_wrapped)
  from d1 have d1r: "canonicalDecimal dt b \<and> \<not> loose opts \<longrightarrow>
      drive r (wrapWithCases dt (IWrapped (WDecimalValue dt b)) opts (decimalCases newBig)) =
        Inr \<lparr>type = dt, kind = KValue, payload = b\<rparr>"
    by (simp add: decimal_run_wrapped)
  from b2 have b2r: "loose opts \<and> validateAndPad bt h (IWrapped (WBytesValue bt' h)) (name opts) = Inr p \<longrightarrow>
      drive r (wrapWithCases bt (IWrapped (WBytesValue bt' h)) opts bytesCases) =
        Inr \<lparr>type = bt, kind = KValue, payload = p\<rparr>"
    by (simp add: bytes_run_wrapped drive_returnBytes)
  from d2 have d2r: "loose opts \<and> validate dt b (IWrapped (WDecimalValue dt' b)) (name opts) = Inr () \<longrightarrow>
      drive r (wrapWithCases dt (IWrapped (WDecimalValue dt' b)) opts (decimalCases newBig)) =
        Inr \<lparr>type = dt, kind = KValue, payload = b\<rparr>"
    by (simp add: decimal_run_wrapped drive_returnDecimal)
  from b1 b1r d1 d1r b2 b2r d2 d2r show ?thesis by blast
qed

text \<open>
  A \<open>bytes2\<close> value and a \<open>ufixed128x18\<close> value against their own types; a \<open>bytes2\<close>
  value against \<open>bytes4\<close> and a \<open>fixed128x18\<close> value against \<open>ufixed128x18\<close> with
  \<open>loose\<close>.
\<close>

theorem C4_round_trip_witness:
  "canonicalBytes bytes2 ''0xabcd'' \<and> \<not> loose strict \<and>
   drive (\<lambda>_. OtherWrapResponse)
     (wrapWithCases bytes2 (IWrapped (WBytesValue bytes2 ''0xabcd'')) strict bytesCases) =
     Inr \<lparr>type = bytes2, kind = KValue, payload = ''0xabcd''\<rparr> \<and>
   canonicalDecimal ufixed128x18 (Big 123 2) \<and>
   drive (\<lambda>_. OtherWrapResponse)
     (wrapWithCases ufixed128x18 (IWrapped (WDecimalValue ufixed128x18 (Big 123 2))) strict
        (decimalCases plainDecimal)) =
     Inr \<lparr>type = ufixed128x18, kind = KValue, payload = Big 123 2\<rparr> \<and>
   loose lenient \<and>
   validateAndPad bytes4 ''0xabcd'' (IWrapped (WBytesValue bytes2 ''0xabcd'')) (name lenient) =
     Inr ''0xabcd0000'' \<and>
   drive (\<lambda>_. OtherWrapResponse)
     (wrapWithCases bytes4 (IWrapped (WBytesValue bytes2 ''0xabcd'')) lenient bytesCases) =
     Inr \<lparr>type = bytes4, kind = KValue, payload = ''0xabcd0000''\<rparr> \<and>
   validate ufixed128x18 (Big 123 2) (IWrapped (WDecimalValue fixed128x18 (Big 123 2))) (name lenient) =
     Inr () \<and>
   drive (\<lambda>_. OtherWrapResponse)
     (wrapWithCases ufixed128x18 (IWrapped (WDecimalValue fixed128x18 (Big 123 2))) lenient
        (decimalCases plainDecimal)) =
     Inr \<lparr>type = ufixed128x18, kind = KValue, payload = Big 123 2\<rparr>"
  (is "?h1 \<and> ?h2 \<and> ?c1 \<and> ?h3 \<and> ?c2 \<and> ?h4 \<and> ?h5 \<and> ?c3 \<and> ?h6 \<and> ?c4")
proof -
  have h1: ?h1 by code_simp
  have h2: ?h2 by code_simp
  have h3: ?h3 by code_simp
  have h4: ?h4 by code_simp
  have h5: ?h5 by code_simp
  have h6: ?h6 by code_simp
  from h1 h2 C4_round_trip[where bt = bytes2 and h = "''0xabcd''" and opts = strict
      and r = "\<lambda>_. OtherWrapResponse"]
  have c1: ?c1 by blast
  from h3 h2 C4_round_trip[where opts = strict and r = "\<lambda>_. OtherWrapResponse"
      and dt = ufixed128x18 and b = "Big 123 2" and newBig = plainDecimal]
  have c2: ?c2 by blast
  from h4 h5 C4_round_trip[where bt = bytes4 and h = "''0xabcd''" and opts = lenient
      and r = "\<lambda>_. OtherWrapResponse" and bt' = bytes2 and p = "''0xabcd0000''"]
  have c3: ?c3 by blast
  from h4 h6 C4_round_trip[where opts = lenient and r = "\<lambda>_. OtherWrapResponse"
      and dt = ufixed128x18 and b = "Big 123 2" and newBig = plainDecimal and dt' = fixed128x18]
  have c4: ?c4 by blast
  from h1 h2 c1 h3 c2 h4 h5 c3 h6 c4 show ?thesis by blast
qed

section \<open>The type/value pair of decimals\<close>

declare showNat.simps [simp del]

lemma isDigit_char_of: "(d::nat) < 10 \<Longrightarrow> isDigit (char_of (48 + d))"
  by (simp add: isDigit_def)

lemma digitValue_char_of: "(d::nat) < 10 \<Longrightarrow> digitValue (char_of (48 + d)) = d"
  by (simp add: digitValue_def)

lemma showNat_digits: "list_all isDigit (showNat n) \<and> showNat n \<noteq> []"
proof (induction n rule: showNat.induct)
  case (1 n)
  show ?case
  proof (cases "n < 10")
    case True
    then show ?thesis by (subst (1 2) showNat.simps) (simp add: isDigit_char_of)
  next
    case False
    with 1 show ?thesis by (subst (1 2) showNat.simps) (simp add: isDigit_char_of)
  qed
qed

lemma digitsToNumber_snoc: "digitsToNumber (ds @ [c]) = digitsToNumber ds * 10 + digitValue c"
  by (simp add: digitsToNumber_def)

lemma digitsToNumber_showNat: "digitsToNumber (showNat n) = n"
proof (induction n rule: showNat.induct)
  case (1 n)
  show ?case
  proof (cases "n < 10")
    case True
    then show ?thesis
      by (subst showNat.simps) (simp add: digitsToNumber_def digitValue_char_of)
  next
    case False
    with 1 have "digitsToNumber (showNat (n div 10)) = n div 10" by simp
    with False show ?thesis
      by (subst showNat.simps) (simp add: digitsToNumber_snoc digitValue_char_of)
  qed
qed

lemma not_digit_x: "\<not> isDigit CHR ''x''"
  by (simp add: isDigit_def)

lemma takeWhile_digits:
  "list_all isDigit ds \<Longrightarrow> takeWhile isDigit (ds @ CHR ''x'' # rest) = ds"
  by (induction ds) (simp_all add: not_digit_x)

lemma dropWhile_digits:
  "list_all isDigit ds \<Longrightarrow> dropWhile isDigit (ds @ CHR ''x'' # rest) = CHR ''x'' # rest"
  by (induction ds) (simp_all add: not_digit_x)

lemma takeWhile_all: "list_all P ds \<Longrightarrow> takeWhile P ds = ds"
  by (induction ds) simp_all

lemma dropWhile_all: "list_all P ds \<Longrightarrow> dropWhile P ds = []"
  by (induction ds) simp_all

lemma matchSuffix_bits_places:
  "matchSuffix (showNat b @ CHR ''x'' # showNat p) = Some (Some (showNat b), Some (showNat p))"
  using showNat_digits[of b] showNat_digits[of p]
  by (simp add: matchSuffix_def Let_def takeWhile_digits dropWhile_digits)

lemma matchSuffix_bits: "matchSuffix (showNat b) = Some (Some (showNat b), None)"
  using showNat_digits[of b]
  by (simp add: matchSuffix_def Let_def takeWhile_all dropWhile_all)

lemma matchSuffix_empty: "matchSuffix [] = Some (None, None)"
  by (simp add: matchSuffix_def)

lemma matchFixed_typeName: "matchFixed (typeName tc @ rest) = map_option (Pair tc) (matchSuffix rest)"
  by (cases tc) (simp_all add: matchFixed_def typeName_def)

lemma matchFixed_declared:
  assumes "declared tc b p ty"
  shows "\<exists>bs ps. matchFixed ty = Some (tc, bs, ps) \<and>
           (case bs of Some ds \<Rightarrow> digitsToNumber ds | None \<Rightarrow> 128) = b \<and>
           (case ps of Some ds \<Rightarrow> digitsToNumber ds | None \<Rightarrow> 18) = p"
proof -
  from assms consider
    (full) "ty = typeName tc @ showNat b @ ''x'' @ showNat p"
    | (bits) "ty = typeName tc @ showNat b" "p = 18"
    | (bare) "ty = typeName tc" "b = 128" "p = 18"
    by (auto simp: declared_def)
  then show ?thesis
  proof cases
    case full
    then show ?thesis
      by (simp add: matchFixed_typeName matchSuffix_bits_places digitsToNumber_showNat)
  next
    case bits
    then show ?thesis
      by (simp add: matchFixed_typeName matchSuffix_bits digitsToNumber_showNat)
  next
    case bare
    then show ?thesis
      using matchFixed_typeName[of tc "[]"] by (simp add: matchSuffix_empty)
  qed
qed

text \<open>
  C5. On a pair whose type string declares the class \<open>tc\<close>, \<open>b\<close> bits and \<open>p\<close> places
  (128 and 18 where the string leaves them out), the case fails with a Mismatch of
  specificity 5 when the class, the bits or the places differ from the target type, and
  otherwise is the run of the basic decimal cases on the value with \<open>loose\<close> set. A type
  string the pattern rejects fails with specificity 5 as well.
\<close>

theorem C5_type_value_pair:
  "(declared tc b p ty \<longrightarrow>
      decimalFromTypeValueInput newBig dt (ITypeValue ty v) opts =
        (if typeClass dt \<noteq> tc \<or> bits dt \<noteq> b \<or> places dt \<noteq> p
         then Throw (TypeMismatchError dt (ITypeValue ty v) (name opts) 5 (specifiedTypeMessage ty))
         else wrapWithCases dt v (opts\<lparr>loose := True\<rparr>) (decimalCasesBasic newBig))) \<and>
   (matchFixed ty = None \<longrightarrow>
      decimalFromTypeValueInput newBig dt (ITypeValue ty v) opts =
        Throw (TypeMismatchError dt (ITypeValue ty v) (name opts) 5 (specifiedTypeMessage ty)))"
proof -
  have 1: "declared tc b p ty \<longrightarrow>
      decimalFromTypeValueInput newBig dt (ITypeValue ty v) opts =
        (if typeClass dt \<noteq> tc \<or> bits dt \<noteq> b \<or> places dt \<noteq> p
         then Throw (TypeMismatchError dt (ITypeValue ty v) (name opts) 5 (specifiedTypeMessage ty))
         else wrapWithCases dt v (opts\<lparr>loose := True\<rparr>) (decimalCasesBasic newBig))"
  proof
    assume "declared tc b p ty"
    from matchFixed_declared[OF this] obtain bs ps where
      "matchFixed ty = Some (tc, bs, ps)"
      "(case bs of Some ds \<Rightarrow> digitsToNumber ds | None \<Rightarrow> 128) = b"
      "(case ps of Some ds \<Rightarrow> digitsToNumber ds | None \<Rightarrow> 18) = p"
      by blast
    then show "decimalFromTypeValueInput newBig dt (ITypeValue ty v) opts =
        (if typeClass dt \<noteq> tc \<or> bits dt \<noteq> b \<or> places dt \<noteq> p
         then Throw (TypeMismatchError dt (ITypeValue ty v) (name opts) 5 (specifiedTypeMessage ty))
         else wrapWithCases dt v (opts\<lparr>loose := True\<rparr>) (decimalCasesBasic newBig))"
      by (simp add: decimalFromTypeValueInput_def Let_def)
  qed
  have 2: "matchFixed ty = None \<longrightarrow>
      decimalFromTypeValueInput newBig dt (ITypeValue ty v) opts =
        Throw (TypeMismatchError dt (ITypeValue ty v) (name opts) 5 (specifiedTypeMessage ty))"
    by (simp add: decimalFromTypeValueInput_def)
  from 1 2 show ?thesis by blast
qed

text \<open>
  The declared type \<open>fixed256x18\<close> against \<open>fixed128x18\<close>; the declared type \<open>ufixed\<close>
  with the value 1.23 against \<open>ufixed128x18\<close>; a type string without its places.
\<close>

theorem C5_type_value_pair_witness:
  "declared Fixed 256 18 ''fixed256x18'' \<and>
   decimalFromTypeValueInput plainDecimal fixed128x18 (ITypeValue ''fixed256x18'' (IString ''1'')) strict =
     Throw (TypeMismatchError fixed128x18 (ITypeValue ''fixed256x18'' (IString ''1'')) ''arg'' 5
       (specifiedTypeMessage ''fixed256x18'')) \<and>
   declared Ufixed 128 18 ''ufixed'' \<and>
   drive (\<lambda>_. OtherWrapResponse)
     (decimalFromTypeValueInput plainDecimal ufixed128x18 (ITypeValue ''ufixed'' (IString ''1.23''))
        strict) =
     Inr \<lparr>type = ufixed128x18, kind = KValue, payload = Big 123 2\<rparr> \<and>
   matchFixed ''fixed128x'' = None \<and>
   decimalFromTypeValueInput plainDecimal fixed128x18 (ITypeValue ''fixed128x'' (IString ''1'')) strict =
     Throw (TypeMismatchError fixed128x18 (ITypeValue ''fixed128x'' (IString ''1'')) ''arg'' 5
       (specifiedTypeMessage ''fixed128x''))"
  (is "?h1 \<and> ?c1 \<and> ?h2 \<and> ?c2 \<and> ?h3 \<and> ?c3")
proof -
  have h1: ?h1 by code_simp
  have h2: ?h2 by code_simp
  have h3: ?h3 by code_simp
  have n: "name strict = ''arg''" by code_simp
  from h1 C5_type_value_pair[where tc = Fixed and b = 256 and p = 18 and ty = "''fixed256x18''"
      and newBig = plainDecimal and dt = fixed128x18 and v = "IString ''1''" and opts = strict]
  have c1: ?c1 by (simp add: fixed128x18_def n)
  have e: "drive (\<lambda>_. OtherWrapResponse)
      (wrapWithCases ufixed128x18 (IString ''1.23'') (strict\<lparr>loose := True\<rparr>)
         (decimalCasesBasic plainDecimal)) =
      Inr \<lparr>type = ufixed128x18, kind = KValue, payload = Big 123 2\<rparr>"
    by code_simp
  from h2 C5_type_value_pair[where tc = Ufixed and b = 128 and p = 18 and ty = "''ufixed''"
      and newBig = plainDecimal and dt = ufixed128x18 and v = "IString ''1.23''" and opts = strict] e
  have c2: ?c2 by (simp add: ufixed128x18_def)
  from h3 C5_type_value_pair[where ty = "''fixed128x''" and newBig = plainDecimal
      and dt = fixed128x18 and v = "IString ''1''" and opts = strict]
  have c3: ?c3 by (simp add: n)
  from h1 c1 h2 c2 h3 c3 show ?thesis by blast
qed

section \<open>The order of the bytes cases\<close>

lemma bytesCases_order:
  "bytesCases =
     [bytesFromTypeValueInput, bytesFromHexString, bytesFromBoxedString, bytesFromUint8ArrayLike,
      bytesFromBytesValue, bytesFromEncodingTextInput, bytesFailureCase]"
  by (simp add: bytesCases_def bytesCasesBasic_def)

text \<open>
  C6, as stated, fails: the list has the case of wrapped bytes values before the case of
  encoding/text pairs. On an encoding/text pair the fifth case of the list fails with
  "Input was not a wrapped result" and the sixth returns the bytes of the text.
\<close>

theorem C6_order_counterexample:
  "bytesCases \<noteq>
     [bytesFromTypeValueInput, bytesFromHexString, bytesFromBoxedString, bytesFromUint8ArrayLike,
      bytesFromEncodingTextInput, bytesFromBytesValue, bytesFailureCase] \<and>
   drive (\<lambda>_. OtherWrapResponse) ((bytesCases ! 4) BytesDynamic (IEncodingText ''utf8'' [0x61]) strict) =
     Inl (TypeMismatchError BytesDynamic (IEncodingText ''utf8'' [0x61]) ''arg'' 1
            (Literal ''Input was not a wrapped result'')) \<and>
   drive (\<lambda>_. OtherWrapResponse) ((bytesCases ! 5) BytesDynamic (IEncodingText ''utf8'' [0x61]) strict) =
     Inr \<lparr>type = BytesDynamic, kind = KValue, payload = ''0x61''\<rparr>"
  (is "?a \<and> ?b \<and> ?c")
proof -
  have b: ?b by code_simp
  have c: ?c by code_simp
  have a: ?a
  proof
    assume "bytesCases =
     [bytesFromTypeValueInput, bytesFromHexString, bytesFromBoxedString, bytesFromUint8ArrayLike,
      bytesFromEncodingTextInput, bytesFromBytesValue, bytesFailureCase]"
    then have "[bytesFromTypeValueInput, bytesFromHexString, bytesFromBoxedString,
        bytesFromUint8ArrayLike, bytesFromBytesValue, bytesFromEncodingTextInput,
        bytesFailureCase] ! 4 =
      [bytesFromTypeValueInput, bytesFromHexString, bytesFromBoxedString,
        bytesFromUint8ArrayLike, bytesFromEncodingTextInput, bytesFromBytesValue,
        bytesFailureCase] ! 4"
      by (simp only: bytesCases_order)
    then have "bytesFromBytesValue = bytesFromEncodingTextInput"
      by simp
    then have "bytesFromBytesValue BytesDynamic IOther strict =
        bytesFromEncodingTextInput BytesDynamic IOther strict"
      by simp
    then show False
      by (simp add: bytesFromBytesValue_def bytesFromEncodingTextInput_def)
  qed
  from a b c show ?thesis by blast
qed

text \<open>
  C6, amended. The cases are tried in the order of the list: type/value pair, hex string,
  boxed string, byte array, wrapped bytes value, encoding/text pair, failure. The first case
  that returns, after the cases before it have failed, gives the value of the run.
\<close>

theorem C6_order_amended:
  "bytesCases =
     [bytesFromTypeValueInput, bytesFromHexString, bytesFromBoxedString, bytesFromUint8ArrayLike,
      bytesFromBytesValue, bytesFromEncodingTextInput, bytesFailureCase] \<and>
   (k < length bytesCases \<and>
    list_all2 (failsWith r bt inp opts) (take k bytesCases) es \<and>
    drive r ((bytesCases ! k) bt inp opts) = Inr v \<longrightarrow>
      drive r (wrapWithCases bt inp opts bytesCases) = Inr v)"
proof -
  have "drive r (wrapWithCases bt inp opts bytesCases) = Inr v"
    if k: "k < length bytesCases"
      and f: "list_all2 (failsWith r bt inp opts) (take k bytesCases) es"
      and s: "drive r ((bytesCases ! k) bt inp opts) = Inr v"
  proof -
    from k have "bytesCases = take k bytesCases @ bytesCases ! k # drop (Suc k) bytesCases"
      by (rule id_take_nth_drop)
    then have "wrapWithCases bt inp opts bytesCases =
        runCases (take k bytesCases @ bytesCases ! k # drop (Suc k) bytesCases) bt inp opts []"
      by (simp add: wrapWithCases_def)
    with drive_runCases_first_success[of r bt inp opts "take k bytesCases" es "bytesCases ! k" v
        "drop (Suc k) bytesCases" "[]", OF f s]
    show ?thesis by simp
  qed
  with bytesCases_order show ?thesis by blast
qed

text \<open>
  An encoding/text pair: five cases fail, the sixth returns.
\<close>

theorem C6_order_amended_witness:
  "5 < length bytesCases \<and>
   (\<exists>es. list_all2
           (failsWith (\<lambda>_. OtherWrapResponse) BytesDynamic (IEncodingText ''utf8'' [0x61]) strict)
           (take 5 bytesCases) es) \<and>
   drive (\<lambda>_. OtherWrapResponse) ((bytesCases ! 5) BytesDynamic (IEncodingText ''utf8'' [0x61]) strict) =
     Inr \<lparr>type = BytesDynamic, kind = KValue, payload = ''0x61''\<rparr> \<and>
   drive (\<lambda>_. OtherWrapResponse)
     (wrapWithCases BytesDynamic (IEncodingText ''utf8'' [0x61]) strict bytesCases) =
     Inr \<lparr>type = BytesDynamic, kind = KValue, payload = ''0x61''\<rparr>"
  (is "?h1 \<and> ?h2 \<and> ?h3 \<and> ?c")
proof -
  have h1: ?h1 by code_simp
  have f: "list_all2
      (failsWith (\<lambda>_. OtherWrapResponse) BytesDynamic (IEncodingText ''utf8'' [0x61]) strict)
      (take 5 bytesCases)
      (mismatches BytesDynamic (IEncodingText ''utf8'' [0x61])
        [(1, Literal ''Input was not a type/value pair''),
         (1, Literal ''Input was not a string''),
         (1, Literal ''Input was not a boxed string''),
         (1, Literal ''Input was not a Uint8Array-like''),
         (1, Literal ''Input was not a wrapped result'')])"
    by code_simp
  then have h2: ?h2 by blast
  have h3: ?h3 by code_simp
  from h1 f h3 C6_order_amended[where k = 5 and r = "\<lambda>_. OtherWrapResponse" and bt = BytesDynamic
      and inp = "IEncodingText ''utf8'' [0x61]" and opts = strict
      and v = "\<lparr>type = BytesDynamic, kind = KValue, payload = ''0x61''\<rparr>"]
  have c: ?c by blast
  from h1 h2 h3 c show ?thesis by blast
qed

section \<open>The resolver of decimals\<close>

text \<open>
  C7. \<^verbatim>\<open>decimalFromOther\<close> makes one request, a decimal request with the input.
  Resumed with a response of another kind it throws \<^verbatim>\<open>BadResponseTypeError\<close>; with
  no value, a Mismatch of specificity 5 when the response is partially recognized and 3
  otherwise; with a value, it validates the value and returns it.
\<close>

theorem C7_resolver_fallback:
  "requests r (decimalFromOther dt inp opts) = [DecimalWrapRequest inp] \<and>
   (r (DecimalWrapRequest inp) = OtherWrapResponse \<longrightarrow>
      drive r (decimalFromOther dt inp opts) =
        Inl (BadResponseTypeError (DecimalWrapRequest inp) OtherWrapResponse)) \<and>
   (r (DecimalWrapRequest inp) = DecimalWrapResponse None reason partly \<longrightarrow>
      drive r (decimalFromOther dt inp opts) =
        Inl (TypeMismatchError dt inp (name opts) (if partly = Some True then 5 else 3)
               (reasonOrDefault reason dt))) \<and>
   (r (DecimalWrapRequest inp) = DecimalWrapResponse (Some b) reason partly \<longrightarrow>
      drive r (decimalFromOther dt inp opts) =
        (case validate dt b inp (name opts) of
           Inl e \<Rightarrow> Inl e
         | Inr _ \<Rightarrow> Inr \<lparr>type = dt, kind = KValue, payload = b\<rparr>))"
  by (auto simp: decimalFromOther_def Let_def drive_returnDecimal returnDecimal_def
      split: WrapResponse.splits option.splits sum.splits)

text \<open>
  The four kinds of response against \<open>ufixed8x0\<close>.
\<close>

theorem C7_resolver_fallback_witness:
  "requests (\<lambda>_. OtherWrapResponse) (decimalFromOther ufixed8x0 IOther strict) =
     [DecimalWrapRequest IOther] \<and>
   drive (\<lambda>_. OtherWrapResponse) (decimalFromOther ufixed8x0 IOther strict) =
     Inl (BadResponseTypeError (DecimalWrapRequest IOther) OtherWrapResponse) \<and>
   drive (\<lambda>_. DecimalWrapResponse None None (Some True)) (decimalFromOther ufixed8x0 IOther strict) =
     Inl (TypeMismatchError ufixed8x0 IOther ''arg'' 5 (unrecognizedNumberMessage ufixed8x0)) \<and>
   drive (\<lambda>_. DecimalWrapResponse None (Some ''no number'') None)
     (decimalFromOther ufixed8x0 IOther strict) =
     Inl (TypeMismatchError ufixed8x0 IOther ''arg'' 3 (Literal ''no number'')) \<and>
   drive (\<lambda>_. DecimalWrapResponse (Some (Big 25 2)) None None)
     (decimalFromOther ufixed8x0 IOther strict) =
     Inl (TypeMismatchError ufixed8x0 IOther ''arg'' 5 (tooPreciseMessage 0 2)) \<and>
   drive (\<lambda>_. DecimalWrapResponse (Some (Big 7 0)) None None)
     (decimalFromOther ufixed8x0 IOther strict) =
     Inr \<lparr>type = ufixed8x0, kind = KValue, payload = Big 7 0\<rparr>"
  (is "?c0 \<and> ?c1 \<and> ?c2 \<and> ?c3 \<and> ?c4 \<and> ?c5")
proof -
  have n: "name strict = ''arg''" by code_simp
  have d1: "reasonOrDefault None ufixed8x0 = unrecognizedNumberMessage ufixed8x0" by code_simp
  have d2: "reasonOrDefault (Some ''no number'') ufixed8x0 = Literal ''no number''" by code_simp
  have v1: "validate ufixed8x0 (Big 25 2) IOther ''arg'' =
      Inl (TypeMismatchError ufixed8x0 IOther ''arg'' 5 (tooPreciseMessage 0 2))" by code_simp
  have v2: "validate ufixed8x0 (Big 7 0) IOther ''arg'' = Inr ()" by code_simp
  from C7_resolver_fallback[where r = "\<lambda>_. OtherWrapResponse" and dt = ufixed8x0 and inp = IOther
      and opts = strict]
  have c0: ?c0 and c1: ?c1 by simp_all
  from C7_resolver_fallback[where r = "\<lambda>_. DecimalWrapResponse None None (Some True)"
      and dt = ufixed8x0 and inp = IOther and opts = strict and reason = None and partly = "Some True"]
  have c2: ?c2 by (simp add: n d1)
  from C7_resolver_fallback[where r = "\<lambda>_. DecimalWrapResponse None (Some ''no number'') None"
      and dt = ufixed8x0 and inp = IOther and opts = strict and reason = "Some ''no number''"
      and partly = None]
  have c3: ?c3 by (simp add: n d2)
  from C7_resolver_fallback[where r = "\<lambda>_. DecimalWrapResponse (Some (Big 25 2)) None None"
      and dt = ufixed8x0 and inp = IOther and opts = strict and b = "Big 25 2" and reason = None
      and partly = None]
  have c4: ?c4 by (simp add: n v1)
  from C7_resolver_fallback[where r = "\<lambda>_. DecimalWrapResponse (Some (Big 7 0)) None None"
      and dt = ufixed8x0 and inp = IOther and opts = strict and b = "Big 7 0" and reason = None
      and partly = None]
  have c5: ?c5 by (simp add: n v2)
  from c0 c1 c2 c3 c4 c5 show ?thesis by blast
qed

section \<open>The type of a returned value\<close>

text \<open>
  C8. The value a bytes or decimal case returns, and the value a run returns, has the
  target type as its type, whatever the input is.
\<close>

theorem C8_type_is_target:
  "(\<forall>c \<in> set bytesCases. drive r (c bt inp opts) = Inr bv \<longrightarrow> type bv = bt) \<and>
   (drive r (wrapWithCases bt inp opts bytesCases) = Inr bv \<longrightarrow> type bv = bt) \<and>
   (\<forall>c \<in> set (decimalCases newBig). drive r (c dt inp opts) = Inr dv \<longrightarrow> type dv = dt) \<and>
   (drive r (wrapWithCases dt inp opts (decimalCases newBig)) = Inr dv \<longrightarrow> type dv = dt)"
  using bytesCases_good[of _ r bt inp opts bv] bytes_run_good[of r bt inp opts bv]
    decimalCases_good[of _ newBig r dt inp opts dv] decimal_run_good[of r dt inp opts newBig dv]
  by (auto simp: goodBytes_def goodDecimal_def)

text \<open>
  A wrapped \<open>bytes2\<close> value against \<open>bytes4\<close> and a wrapped \<open>fixed128x18\<close> value against
  \<open>ufixed128x18\<close>, with \<open>loose\<close>: the returned type is the target.
\<close>

theorem C8_type_is_target_witness:
  "bytesFromBytesValue \<in> set bytesCases \<and>
   drive (\<lambda>_. OtherWrapResponse)
     (bytesFromBytesValue bytes4 (IWrapped (WBytesValue bytes2 ''0xabcd'')) lenient) =
     Inr \<lparr>type = bytes4, kind = KValue, payload = ''0xabcd0000''\<rparr> \<and>
   drive (\<lambda>_. OtherWrapResponse)
     (wrapWithCases bytes4 (IWrapped (WBytesValue bytes2 ''0xabcd'')) lenient bytesCases) =
     Inr \<lparr>type = bytes4, kind = KValue, payload = ''0xabcd0000''\<rparr> \<and>
   type \<lparr>type = bytes4, kind = KValue, payload = ''0xabcd0000''\<rparr> = bytes4 \<and>
   decimalFromDecimalValue \<in> set (decimalCases plainDecimal) \<and>
   drive (\<lambda>_. OtherWrapResponse)
     (decimalFromDecimalValue ufixed128x18 (IWrapped (WDecimalValue fixed128x18 (Big 123 2))) lenient) =
     Inr \<lparr>type = ufixed128x18, kind = KValue, payload = Big 123 2\<rparr> \<and>
   drive (\<lambda>_. OtherWrapResponse)
     (wrapWithCases ufixed128x18 (IWrapped (WDecimalValue fixed128x18 (Big 123 2))) lenient
        (decimalCases plainDecimal)) =
     Inr \<lparr>type = ufixed128x18, kind = KValue, payload = Big 123 2\<rparr> \<and>
   type \<lparr>type = ufixed128x18, kind = KValue, payload = Big 123 2\<rparr> = ufixed128x18"
  (is "?m1 \<and> ?d1 \<and> ?r1 \<and> ?t1 \<and> ?m2 \<and> ?d2 \<and> ?r2 \<and> ?t2")
proof -
  have m1: ?m1 by (simp add: bytesCases_def bytesCasesBasic_def)
  have m2: ?m2 by (simp add: decimalCases_def decimalCasesBasic_def)
  have d1: ?d1 by code_simp
  have d2: ?d2 by code_simp
  have r1: ?r1 by code_simp
  have r2: ?r2 by code_simp
  from m1 d1 r1 C8_type_is_target[where r = "\<lambda>_. OtherWrapResponse" and bt = bytes4
      and inp = "IWrapped (WBytesValue bytes2 ''0xabcd'')" and opts = lenient
      and bv = "\<lparr>type = bytes4, kind = KValue, payload = ''0xabcd0000''\<rparr>"]
  have t1: ?t1 by blast
  from m2 d2 r2 C8_type_is_target[where r = "\<lambda>_. OtherWrapResponse"
      and inp = "IWrapped (WDecimalValue fixed128x18 (Big 123 2))" and opts = lenient
      and newBig = plainDecimal and dt = ufixed128x18
      and dv = "\<lparr>type = ufixed128x18, kind = KValue, payload = Big 123 2\<rparr>"]
  have t2: ?t2 by blast
  from m1 d1 r1 t1 m2 d2 r2 t2 show ?thesis by blast
qed

section \<open>Wrapped enum results\<close>

text \<open>
  C9. On a wrapped enum result that is an error, \<^verbatim>\<open>decimalFromEnumValue\<close> fails
  with specificity 1; on one that is a value, \<^verbatim>\<open>decimalFromEnumError\<close> fails with
  specificity 1. So on every wrapped enum result one of the two fails with specificity 1.
\<close>

theorem C9_enum_kind_specificity:
  "decimalFromEnumValue dt (IWrapped (WErrorResult (EnumT n) info)) opts =
     Throw (TypeMismatchError dt (IWrapped (WErrorResult (EnumT n) info)) (name opts) 1
       errorResultMessage) \<and>
   decimalFromEnumError dt (IWrapped (WEnumValue n x)) opts =
     Throw (TypeMismatchError dt (IWrapped (WEnumValue n x)) (name opts) 1
       (Literal ''Wrapped result was a value rather than an error'')) \<and>
   (wtype w = EnumT n \<and> wkind w = KError \<longrightarrow>
      drive r (decimalFromEnumValue dt (IWrapped w) opts) =
        Inl (TypeMismatchError dt (IWrapped w) (name opts) 1 errorResultMessage)) \<and>
   (wtype w = EnumT n \<and> wkind w = KValue \<longrightarrow>
      drive r (decimalFromEnumError dt (IWrapped w) opts) =
        Inl (TypeMismatchError dt (IWrapped w) (name opts) 1
          (Literal ''Wrapped result was a value rather than an error''))) \<and>
   (wtype w = EnumT n \<longrightarrow>
      (\<exists>e. drive r (decimalFromEnumValue dt (IWrapped w) opts) = Inl e \<and> specificity e = 1) \<or>
      (\<exists>e. drive r (decimalFromEnumError dt (IWrapped w) opts) = Inl e \<and> specificity e = 1))"
  by (auto simp: decimalFromEnumValue_def decimalFromEnumError_def wtype_def wkind_def
      specificity_def split: WrappedResult.splits Type.splits)

text \<open>
  An enum error result and an enum value.
\<close>

theorem C9_enum_kind_specificity_witness:
  "wtype (WErrorResult (EnumT ''E'') (EnumOutOfRangeError 7)) = EnumT ''E'' \<and>
   wkind (WErrorResult (EnumT ''E'') (EnumOutOfRangeError 7)) = KError \<and>
   drive (\<lambda>_. OtherWrapResponse)
     (decimalFromEnumValue ufixed8x0 (IWrapped (WErrorResult (EnumT ''E'') (EnumOutOfRangeError 7)))
        lenient) =
     Inl (TypeMismatchError ufixed8x0 (IWrapped (WErrorResult (EnumT ''E'') (EnumOutOfRangeError 7)))
       (name lenient) 1 errorResultMessage) \<and>
   wtype (WEnumValue ''E'' 1) = EnumT ''E'' \<and> wkind (WEnumValue ''E'' 1) = KValue \<and>
   drive (\<lambda>_. OtherWrapResponse) (decimalFromEnumError ufixed8x0 (IWrapped (WEnumValue ''E'' 1)) lenient) =
     Inl (TypeMismatchError ufixed8x0 (IWrapped (WEnumValue ''E'' 1)) (name lenient) 1
       (Literal ''Wrapped result was a value rather than an error''))"
  (is "?h1 \<and> ?h2 \<and> ?c1 \<and> ?h3 \<and> ?h4 \<and> ?c2")
proof -
  have h1: ?h1 by code_simp
  have h2: ?h2 by code_simp
  have h3: ?h3 by code_simp
  have h4: ?h4 by code_simp
  from h1 h2 C9_enum_kind_specificity[where dt = ufixed8x0 and opts = lenient
      and w = "WErrorResult (EnumT ''E'') (EnumOutOfRangeError 7)" and n = "''E''"
      and r = "\<lambda>_. OtherWrapResponse"]
  have c1: ?c1 by blast
  from h3 h4 C9_enum_kind_specificity[where dt = ufixed8x0 and opts = lenient
      and w = "WEnumValue ''E'' 1" and n = "''E''" and r = "\<lambda>_. OtherWrapResponse"]
  have c2: ?c2 by blast
  from h1 h2 c1 h3 h4 c2 show ?thesis by blast
qed

section \<open>Strings as decimals\<close>

lemma dropWhile_rev_dropWhile:
  "dropWhile P (rev (dropWhile P (rev (dropWhile P xs)))) = rev (dropWhile P (rev (dropWhile P xs)))"
proof (cases "rev (dropWhile P (rev (dropWhile P xs)))")
  case Nil
  then show ?thesis by (simp only: dropWhile.simps)
next
  case (Cons y ys)
  define zs where "zs = dropWhile P xs"
  have split: "zs = rev (dropWhile P (rev zs)) @ rev (takeWhile P (rev zs))"
    by (metis rev_append rev_rev_ident takeWhile_dropWhile_id)
  with Cons have "zs = y # ys @ rev (takeWhile P (rev zs))" by (simp add: zs_def)
  then have "hd zs = y" "zs \<noteq> []" by (metis list.sel(1), metis list.distinct(1))
  then have "\<not> P y" unfolding zs_def by (metis hd_dropWhile)
  with Cons show ?thesis by simp
qed

lemma trim_idem: "trim (trim s) = trim s"
  by (simp add: trim_def dropWhile_rev_dropWhile)

text \<open>
  C10, as stated, fails: a string whose trimmed form is read as an exact decimal is not
  always accepted. The string " 1.5 " against \<open>ufixed8x0\<close> is read as 1.5 and rejected by
  the validator.
\<close>

theorem C10_trim_counterexample:
  "plainDecimal (trim '' 1.5 '') = Some (Big 15 1) \<and>
   drive (\<lambda>_. OtherWrapResponse) (decimalFromString plainDecimal ufixed8x0 (IString '' 1.5 '') strict) =
     Inl (TypeMismatchError ufixed8x0 (IString '' 1.5 '') ''arg'' 5 (tooPreciseMessage 0 1))"
  by code_simp

text \<open>
  C10, amended. The string case reads the trimmed string; when that is read as a decimal,
  the case ends with the validation of that decimal, and returns it when the validator
  accepts it. The outcome on a string is the outcome on its trimmed form.
\<close>

theorem C10_trim_amended:
  "(newBig (trim s) = Some b \<longrightarrow>
      decimalFromString newBig dt (IString s) opts =
        returnDecimal dt b (validate dt b (IString s) (name opts))) \<and>
   (newBig (trim s) = Some b \<and> countDecimalPlaces b \<le> places dt \<and> withinRange dt b \<longrightarrow>
      decimalFromString newBig dt (IString s) opts =
        Return \<lparr>type = dt, kind = KValue, payload = b\<rparr>) \<and>
   outcome (drive r (decimalFromString newBig dt (IString s) opts)) =
     outcome (drive r (decimalFromString newBig dt (IString (trim s)) opts))"
proof -
  have 1: "newBig (trim s) = Some b \<longrightarrow>
      decimalFromString newBig dt (IString s) opts =
        returnDecimal dt b (validate dt b (IString s) (name opts))"
    by (simp add: decimalFromString_def)
  have 2: "newBig (trim s) = Some b \<and> countDecimalPlaces b \<le> places dt \<and> withinRange dt b \<longrightarrow>
      decimalFromString newBig dt (IString s) opts =
        Return \<lparr>type = dt, kind = KValue, payload = b\<rparr>"
    using validate_Inr[of dt b "IString s" "name opts" "()"]
    by (auto simp: decimalFromString_def returnDecimal_def)
  have 3: "outcome (drive r (decimalFromString newBig dt (IString s) opts)) =
     outcome (drive r (decimalFromString newBig dt (IString (trim s)) opts))"
    by (simp add: decimalFromString_def trim_idem outcome_def drive_returnDecimal validate_def
        specificity_def reasonOf_def split: option.splits)
  from 1 2 3 show ?thesis by blast
qed

text \<open>
  The string " 1.23 " against \<open>ufixed128x18\<close>.
\<close>

theorem C10_trim_amended_witness:
  "plainDecimal (trim '' 1.23 '') = Some (Big 123 2) \<and>
   countDecimalPlaces (Big 123 2) \<le> places ufixed128x18 \<and> withinRange ufixed128x18 (Big 123 2) \<and>
   decimalFromString plainDecimal ufixed128x18 (IString '' 1.23 '') strict =
     Return \<lparr>type = ufixed128x18, kind = KValue, payload = Big 123 2\<rparr>"
  (is "?p \<and> ?c \<and> ?w \<and> ?r")
proof -
  have p: ?p by code_simp
  have c: ?c by code_simp
  have w: ?w by code_simp
  from p c w C10_trim_amended[of plainDecimal "'' 1.23 ''" "Big 123 2" ufixed128x18 strict]
  show ?thesis by blast
qed

section \<open>The scenarios of the specification\<close>

text \<open>
  The six scenarios of the specification (8), as runs of the two case lists: (a) the hex
  string 0xAB against dynamic bytes; (b) the byte array 1, 2 against \<open>bytes4\<close>; (c) three
  bytes against \<open>bytes2\<close>; (d) the string 1.23 against \<open>ufixed128x18\<close>; (e) the string 1.5
  against \<open>ufixed8x0\<close>; (f) a pair that declares \<open>fixed256x18\<close> against \<open>fixed128x18\<close>. In
  (e) and (f) the resolver recognises nothing.
\<close>

lemma scenarios_bytes:
  "drive r (wrapWithCases BytesDynamic (IString ''0xAB'') strict bytesCases) =
     Inr \<lparr>type = BytesDynamic, kind = KValue, payload = ''0xab''\<rparr> \<and>
   drive r (wrapWithCases bytes4
       (IUint8ArrayLike (ArrayLike (Finite (Big 2 0)) [Num (Finite (Big 1 0)), Num (Finite (Big 2 0))]))
       strict bytesCases) =
     Inr \<lparr>type = bytes4, kind = KValue, payload = ''0x01020000''\<rparr> \<and>
   drive r (wrapWithCases bytes2 (IString ''0x010203'') strict bytesCases) =
     Inl (TypeMismatchError bytes2 (IString ''0x010203'') ''arg'' 5 (overlongMessage 2 3))"
  by code_simp

lemma scenarios_decimal:
  "drive r (wrapWithCases ufixed128x18 (IString ''1.23'') strict (decimalCases plainDecimal)) =
     Inr \<lparr>type = ufixed128x18, kind = KValue, payload = Big 123 2\<rparr> \<and>
   drive (\<lambda>_. DecimalWrapResponse None None None)
     (wrapWithCases ufixed8x0 (IString ''1.5'') strict (decimalCases plainDecimal)) =
     Inl (TypeMismatchError ufixed8x0 (IString ''1.5'') ''arg'' 5 (tooPreciseMessage 0 1)) \<and>
   drive (\<lambda>_. DecimalWrapResponse None None None)
     (wrapWithCases fixed128x18 (ITypeValue ''fixed256x18'' (IString ''1'')) strict
        (decimalCases plainDecimal)) =
     Inl (TypeMismatchError fixed128x18 (ITypeValue ''fixed256x18'' (IString ''1'')) ''arg'' 5
            (specifiedTypeMessage ''fixed256x18''))"
  by code_simp

end
